theory Spec2Isabelle
  imports Complex_Main
begin

section \<open>Exceptions\<close>

text \<open>
  The exceptions that the modelled code raises, catches or lets through. A raising
  computation returns \<open>Inl e\<close>, a returning one \<open>Inr v\<close>. \<open>ValueError\<close> carries the
  message, since \<open>from_iso_datetime\<close> raises one with a message of its own.
\<close>

datatype exn =
    ValueError string
  | TypeError
  | AttributeError
  | KeyError
  | OverflowError
  | InvalidOperation
  | ValidationError
  | OtherError string

section \<open>utils.py: the ISO-8601 pattern\<close>

text \<open>
  The regular expressions of \<open>utils.py\<close> use digits, literals, a character class,
  sequencing, greedy options, alternatives, named groups and the end anchor. \<open>rmatch\<close> is a
  backtracking matcher in continuation-passing style: it tries alternatives in the order
  of Python's \<open>re\<close> engine (a greedy option first tries its body, an alternative its left
  branch) and returns the groups of the first complete match. A bounded repetition
  \<open>r{m,n}\<close> is unfolded by \<open>rep\<close>.
\<close>

datatype rx =
    Digit
  | Lit char
  | Cls "char list"
  | Seq rx rx
  | Opt rx
  | Alt rx rx
  | Grp string rx
  | Eol

type_synonym caps = "(string \<times> string) list"

definition is_digit :: "char \<Rightarrow> bool" where
  "is_digit c = (c \<in> set ''0123456789'')"

fun rmatch :: "rx \<Rightarrow> string \<Rightarrow> caps \<Rightarrow> (string \<Rightarrow> caps \<Rightarrow> caps option) \<Rightarrow> caps option" where
  "rmatch Digit s g k = (case s of [] \<Rightarrow> None | c # cs \<Rightarrow> if is_digit c then k cs g else None)"
| "rmatch (Lit x) s g k = (case s of [] \<Rightarrow> None | c # cs \<Rightarrow> if c = x then k cs g else None)"
| "rmatch (Cls xs) s g k = (case s of [] \<Rightarrow> None | c # cs \<Rightarrow> if c \<in> set xs then k cs g else None)"
| "rmatch (Seq a b) s g k = rmatch a s g (\<lambda>s' g'. rmatch b s' g' k)"
| "rmatch (Opt a) s g k = (case rmatch a s g k of Some r \<Rightarrow> Some r | None \<Rightarrow> k s g)"
| "rmatch (Alt a b) s g k = (case rmatch a s g k of Some r \<Rightarrow> Some r | None \<Rightarrow> rmatch b s g k)"
| "rmatch (Grp n a) s g k =
     rmatch a s g (\<lambda>s' g'. k s' ((n, take (length s - length s') s) # g'))"
| "rmatch Eol s g k = (if s = [] \<or> s = [CHR 0x0A] then k s g else None)"

text \<open>A sequence of patterns, and the bounded repetitions the pattern uses.\<close>

fun seqs :: "rx list \<Rightarrow> rx" where
  "seqs [] = Opt Eol"
| "seqs [r] = r"
| "seqs (r # rs) = Seq r (seqs rs)"

text \<open>\<open>\d{1,2}\<close>: one digit, then greedily one more.\<close>

definition d12 :: rx where
  "d12 = Seq Digit (Opt Digit)"

text \<open>\<open>\d{0,n}\<close>: greedily up to \<open>n\<close> digits.\<close>

fun d0n :: "nat \<Rightarrow> rx" where
  "d0n 0 = Opt Digit"
| "d0n (Suc 0) = Opt Digit"
| "d0n (Suc n) = Opt (Seq Digit (d0n n))"

text \<open>
  \<^verbatim>\<open>Z|[+-]\d{2}(?::?\d{2})?\<close>, the body of the group \<open>tzinfo\<close>.
\<close>

definition tz_rx :: rx where
  "tz_rx = Alt (Lit CHR ''Z'')
     (seqs [Cls ''+-'', Digit, Digit, Opt (seqs [Opt (Lit CHR '':''), Digit, Digit])])"

text \<open>
  \<^verbatim>\<open>(?P<year>\d{4})-(?P<month>\d{1,2})-(?P<day>\d{1,2})\<close>
  \<^verbatim>\<open>[T ](?P<hour>\d{1,2}):(?P<minute>\d{1,2})\<close>
  \<^verbatim>\<open>(?::(?P<second>\d{1,2})(?:\.(?P<microsecond>\d{1,6})\d{0,6})?)?\<close>
  \<^verbatim>\<open>(?P<tzinfo>Z|[+-]\d{2}(?::?\d{2})?)?$\<close>
\<close>

definition iso8601_datetime_re :: rx where
  "iso8601_datetime_re = seqs
     [Grp ''year'' (seqs [Digit, Digit, Digit, Digit]), Lit CHR ''-'',
      Grp ''month'' d12, Lit CHR ''-'',
      Grp ''day'' d12,
      Cls ''T '',
      Grp ''hour'' d12, Lit CHR '':'',
      Grp ''minute'' d12,
      Opt (seqs [Lit CHR '':'', Grp ''second'' d12,
                 Opt (seqs [Lit CHR ''.'', Grp ''microsecond'' (Seq Digit (d0n 5)), d0n 6])]),
      Opt (Grp ''tzinfo'' tz_rx),
      Eol]"

text \<open>\<open>pattern.match(value)\<close> and \<open>match.groupdict()\<close>: a group that took no part is absent.\<close>

definition re_match :: "rx \<Rightarrow> string \<Rightarrow> caps option" where
  "re_match r s = rmatch r s [] (\<lambda>s' g. Some g)"

definition grp :: "caps \<Rightarrow> string \<Rightarrow> string option" where
  "grp kw n = map_of kw n"

section \<open>Python's \<open>int\<close> and \<open>str\<close> on integers and strings\<close>

text \<open>
  Characters are bytes here, so the digits and the white space are the ASCII ones:
  \<open>str.strip()\<close> removes the characters for which \<open>str.isspace\<close> holds.
\<close>

definition is_space :: "char \<Rightarrow> bool" where
  "is_space c = (c \<in> set [CHR '' '', CHR 0x09, CHR 0x0A, CHR 0x0B, CHR 0x0C, CHR 0x0D,
                           CHR 0x1C, CHR 0x1D, CHR 0x1E, CHR 0x1F])"

definition strip :: "string \<Rightarrow> string" where
  "strip s = rev (dropWhile is_space (rev (dropWhile is_space s)))"

definition digit_val :: "char \<Rightarrow> nat" where
  "digit_val c = length (takeWhile (\<lambda>d. d \<noteq> c) ''0123456789'')"

text \<open>Digits with single underscores between them, as \<open>int\<close> accepts them.\<close>

fun digits_value :: "string \<Rightarrow> nat \<Rightarrow> nat option" where
  "digits_value [] acc = Some acc"
| "digits_value (c # cs) acc =
     (if is_digit c then digits_value cs (10 * acc + digit_val c)
      else if c = CHR ''_'' then
        (case cs of
           [] \<Rightarrow> None
         | d # ds \<Rightarrow> if is_digit d then digits_value ds (10 * acc + digit_val d) else None)
      else None)"

definition unsigned_value :: "string \<Rightarrow> nat option" where
  "unsigned_value s =
     (case s of [] \<Rightarrow> None
      | c # cs \<Rightarrow> if is_digit c then digits_value cs (digit_val c) else None)"

text \<open>\<open>int(s)\<close> for a string: \<open>None\<close> stands for the \<open>ValueError\<close>.\<close>

definition int_of_str :: "string \<Rightarrow> int option" where
  "int_of_str s =
     (case strip s of
        [] \<Rightarrow> None
      | c # cs \<Rightarrow>
          if c = CHR ''-'' then map_option (\<lambda>n. - int n) (unsigned_value cs)
          else if c = CHR ''+'' then map_option int (unsigned_value cs)
          else map_option int (unsigned_value (c # cs)))"

definition digit_char :: "nat \<Rightarrow> char" where
  "digit_char n = ''0123456789'' ! (n mod 10)"

fun show_nat :: "nat \<Rightarrow> string" where
  "show_nat n = (if n < 10 then [digit_char n] else show_nat (n div 10) @ [digit_char n])"

declare show_nat.simps [simp del]

definition show_int :: "int \<Rightarrow> string" where
  "show_int i = (if i < 0 then CHR ''-'' # show_nat (nat (- i)) else show_nat (nat i))"

text \<open>\<open>"%02d" % n\<close> for a natural number.\<close>

definition pad2 :: "nat \<Rightarrow> string" where
  "pad2 n = (if n < 10 then CHR ''0'' # show_nat n else show_nat n)"

text \<open>\<open>s.ljust(6, "0")\<close>\<close>

definition ljust6 :: "string \<Rightarrow> string" where
  "ljust6 s = s @ replicate (6 - length s) CHR ''0''"

section \<open>utils.py: timestamps and the ISO-8601 parser\<close>

datatype tz = UTC | FixedTz int string

record datetime =
  year :: int
  month :: int
  day :: int
  hour :: int
  minute :: int
  second :: int
  microsecond :: int
  tzinfo :: "tz option"

definition is_leap :: "int \<Rightarrow> bool" where
  "is_leap y = (y mod 4 = 0 \<and> (y mod 100 \<noteq> 0 \<or> y mod 400 = 0))"

definition days_in_month :: "int \<Rightarrow> int \<Rightarrow> int" where
  "days_in_month y m =
     (if m = 2 then (if is_leap y then 29 else 28)
      else if m \<in> {4, 6, 9, 11} then 30 else 31)"

text \<open>
  The constructor \<open>datetime.datetime(...)\<close>: a field out of range is a \<open>ValueError\<close>
  (with the library's message, here a tag of the field).
\<close>

definition mk_datetime ::
  "int \<Rightarrow> int \<Rightarrow> int \<Rightarrow> int \<Rightarrow> int \<Rightarrow> int \<Rightarrow> int \<Rightarrow> tz option \<Rightarrow> exn + datetime" where
  "mk_datetime y mo d h mi s us z =
     (if \<not> (1 \<le> y \<and> y \<le> 9999) then Inl (ValueError ''year is out of range'')
      else if \<not> (1 \<le> mo \<and> mo \<le> 12) then Inl (ValueError ''month must be in 1..12'')
      else if \<not> (1 \<le> d \<and> d \<le> days_in_month y mo) then
        Inl (ValueError ''day is out of range for month'')
      else if \<not> (0 \<le> h \<and> h \<le> 23) then Inl (ValueError ''hour must be in 0..23'')
      else if \<not> (0 \<le> mi \<and> mi \<le> 59) then Inl (ValueError ''minute must be in 0..59'')
      else if \<not> (0 \<le> s \<and> s \<le> 59) then Inl (ValueError ''second must be in 0..59'')
      else if \<not> (0 \<le> us \<and> us \<le> 999999) then
        Inl (ValueError ''microsecond must be in 0..999999'')
      else Inr \<lparr>year = y, month = mo, day = d, hour = h, minute = mi, second = s,
                microsecond = us, tzinfo = z\<rparr>)"

text \<open>
  \<open>get_fixed_timezone(offset)\<close> for an integer number of minutes, the only kind of argument
  \<open>from_iso_datetime\<close> passes. \<open>datetime.timezone\<close> refuses an offset that is not strictly
  between minus and plus 24 hours.
\<close>

definition get_fixed_timezone :: "int \<Rightarrow> exn + tz" where
  "get_fixed_timezone offset =
     (let sign = (if offset < 0 then ''-'' else ''+'');
          hhmm = pad2 (nat \<bar>offset\<bar> div 60) @ pad2 (nat \<bar>offset\<bar> mod 60);
          name = sign @ hhmm
      in if - 1440 < offset \<and> offset < 1440 then Inr (FixedTz offset name)
         else Inl (ValueError ''offset must be a timedelta strictly between -24h and 24h''))"

text \<open>The slices \<open>s[-2:]\<close> and \<open>s[1:3]\<close>.\<close>

definition last2 :: "string \<Rightarrow> string" where
  "last2 s = drop (length s - 2) s"

definition slice13 :: "string \<Rightarrow> string" where
  "slice13 s = take 2 (drop 1 s)"

text \<open>\<open>int(v)\<close> of a group that is present; \<open>int\<close> raises \<open>ValueError\<close> on other strings.\<close>

definition int_of :: "string \<Rightarrow> exn + int" where
  "int_of s = (case int_of_str s of None \<Rightarrow> Inl (ValueError ''invalid literal for int()'')
               | Some i \<Rightarrow> Inr i)"

definition tz_offset :: "string \<Rightarrow> exn + int" where
  "tz_offset z =
     (case (if length z > 3 then int_of (last2 z) else Inr 0) of
        Inl e \<Rightarrow> Inl e
      | Inr offset_mins \<Rightarrow>
          (case int_of (slice13 z) of
             Inl e \<Rightarrow> Inl e
           | Inr hh \<Rightarrow>
               (let offset = 60 * hh + offset_mins
                in Inr (if take 1 z = ''-'' then - offset else offset))))"

definition resolve_tz :: "string option \<Rightarrow> exn + tz option" where
  "resolve_tz z =
     (case z of
        None \<Rightarrow> Inr None
      | Some t \<Rightarrow>
          if t = ''Z'' then Inr (Some UTC)
          else (case tz_offset t of
                  Inl e \<Rightarrow> Inl e
                | Inr offset \<Rightarrow>
                    (case get_fixed_timezone offset of Inl e \<Rightarrow> Inl e | Inr f \<Rightarrow> Inr (Some f))))"

text \<open>
  The comprehension \<open>{k: int(v) for k, v in kw.items() if v is not None}\<close> and the call
  \<open>dt.datetime(**kw)\<close>: an absent group leaves the constructor's default \<open>0\<close>; year, month
  and day have none (a \<open>TypeError\<close>, which the pattern excludes).
\<close>

definition kw_int :: "caps \<Rightarrow> string \<Rightarrow> exn + int option" where
  "kw_int kw n =
     (case grp kw n of None \<Rightarrow> Inr None
      | Some v \<Rightarrow> (case int_of v of Inl e \<Rightarrow> Inl e | Inr i \<Rightarrow> Inr (Some i)))"

definition dflt0 :: "int option \<Rightarrow> int" where
  "dflt0 x = (case x of None \<Rightarrow> 0 | Some i \<Rightarrow> i)"

definition build_datetime :: "caps \<Rightarrow> tz option \<Rightarrow> exn + datetime" where
  "build_datetime kw z =
     (case kw_int kw ''year'' of Inl e \<Rightarrow> Inl e | Inr y \<Rightarrow>
      case kw_int kw ''month'' of Inl e \<Rightarrow> Inl e | Inr mo \<Rightarrow>
      case kw_int kw ''day'' of Inl e \<Rightarrow> Inl e | Inr d \<Rightarrow>
      case kw_int kw ''hour'' of Inl e \<Rightarrow> Inl e | Inr h \<Rightarrow>
      case kw_int kw ''minute'' of Inl e \<Rightarrow> Inl e | Inr mi \<Rightarrow>
      case kw_int kw ''second'' of Inl e \<Rightarrow> Inl e | Inr s \<Rightarrow>
      case kw_int kw ''microsecond'' of Inl e \<Rightarrow> Inl e | Inr us \<Rightarrow>
      (case (y, mo, d) of
         (Some y', Some mo', Some d') \<Rightarrow>
           mk_datetime y' mo' d' (dflt0 h) (dflt0 mi) (dflt0 s) (dflt0 us) z
       | _ \<Rightarrow> Inl TypeError))"

definition from_iso_datetime :: "string \<Rightarrow> exn + datetime" where
  "from_iso_datetime v =
     (case re_match iso8601_datetime_re v of
        None \<Rightarrow> Inl (ValueError ''Not a valid ISO8601-formatted datetime string'')
      | Some kw0 \<Rightarrow>
          (let kw = (case grp kw0 ''microsecond'' of
                       None \<Rightarrow> kw0
                     | Some us \<Rightarrow> (''microsecond'', ljust6 us) # kw0)
           in case resolve_tz (grp kw ''tzinfo'') of
                Inl e \<Rightarrow> Inl e
              | Inr z \<Rightarrow> build_datetime kw z))"

section \<open>Auxiliary notions for the proofs about the pattern\<close>

text \<open>
  \<open>run r s g s' g'\<close>: the pattern \<open>r\<close> can consume a prefix of \<open>s\<close>, leaving \<open>s'\<close>, and
  turn the groups \<open>g\<close> into \<open>g'\<close>. Every call of the continuation by \<open>rmatch\<close> is such a run
  (lemma \<open>rmatch_run\<close>).
\<close>

inductive run :: "rx \<Rightarrow> string \<Rightarrow> caps \<Rightarrow> string \<Rightarrow> caps \<Rightarrow> bool" where
  run_Digit: "is_digit c \<Longrightarrow> run Digit (c # cs) g cs g"
| run_Lit: "run (Lit x) (x # cs) g cs g"
| run_Cls: "c \<in> set xs \<Longrightarrow> run (Cls xs) (c # cs) g cs g"
| run_Seq: "run a s g s1 g1 \<Longrightarrow> run b s1 g1 s2 g2 \<Longrightarrow> run (Seq a b) s g s2 g2"
| run_Opt: "run a s g s' g' \<Longrightarrow> run (Opt a) s g s' g'"
| run_Skip: "run (Opt a) s g s g"
| run_AltL: "run a s g s' g' \<Longrightarrow> run (Alt a b) s g s' g'"
| run_AltR: "run b s g s' g' \<Longrightarrow> run (Alt a b) s g s' g'"
| run_Grp: "run a s g s' g' \<Longrightarrow> run (Grp n a) s g s' ((n, take (length s - length s') s) # g')"
| run_Eol: "s = [] \<or> s = [CHR 0x0A] \<Longrightarrow> run Eol s g s g"





section \<open>Python values\<close>

text \<open>
  The values a field can be given, store or hold as a bound. A finite float is the rational
  number it denotes (Python compares numbers of different types by their exact values); a
  decimal is its sign, coefficient and exponent, as \<open>Decimal.as_tuple()\<close> shows it.
\<close>

datatype fl = FFin rat | FInf bool | FNaN

datatype dec =
    DFin bool nat int
  | DInf bool
  | DNaN bool bool string

datatype pyval =
    PNone
  | PBool bool
  | PInt int
  | PFloat fl
  | PStr string
  | PList "pyval list"
  | PTuple "pyval list"
  | PDict "(pyval \<times> pyval) list"
  | PDec dec
  | PDateTime datetime
  | PEnum string

datatype rounding =
    ROUND_UP | ROUND_DOWN | ROUND_CEILING | ROUND_FLOOR
  | ROUND_HALF_UP | ROUND_HALF_DOWN | ROUND_HALF_EVEN | ROUND_05UP

text \<open>
  What the model takes from the Python runtime and its libraries without defining it: the
  correctly rounded conversions to a float, the \<open>str\<close> of the values whose text depends on
  them or on the record type, the order of two values of the same non-numeric type, and
  the two date parsers \<open>email.utils.parsedate_to_datetime\<close> and \<open>datetime.strptime\<close>.
\<close>

record runtime =
  float_of_str :: "string \<Rightarrow> fl option"
  float_of_int :: "int \<Rightarrow> exn + fl"
  str_other :: "pyval \<Rightarrow> string"
  lt_other :: "pyval \<Rightarrow> pyval \<Rightarrow> exn + bool"
  parsedate_to_datetime :: "pyval \<Rightarrow> exn + datetime"
  strptime :: "pyval \<Rightarrow> string \<Rightarrow> exn + datetime"

subsection \<open>Strings\<close>

text \<open>\<open>str.lower()\<close>, on the ASCII letters: a character is a byte here.\<close>

definition lower_char :: "char \<Rightarrow> char" where
  "lower_char c =
     (case map_of (zip ''ABCDEFGHIJKLMNOPQRSTUVWXYZ'' ''abcdefghijklmnopqrstuvwxyz'') c of
        None \<Rightarrow> c | Some d \<Rightarrow> d)"

definition lower :: "string \<Rightarrow> string" where
  "lower s = map lower_char s"

subsection \<open>Decimals: \<open>str\<close>, \<open>to_eng_string\<close>, \<open>Decimal(s)\<close>, \<open>quantize\<close>\<close>

text \<open>\<open>"%+d" % n\<close>\<close>

definition show_signed :: "int \<Rightarrow> string" where
  "show_signed i = (if i < 0 then show_int i else CHR ''+'' # show_int i)"

text \<open>
  \<open>Decimal.__str__(eng)\<close>: the plain form when the exponent is at most zero and the number
  has more than \<open>-6\<close> digits before the point, the scientific or the engineering form
  otherwise.
\<close>

definition dec_string :: "bool \<Rightarrow> dec \<Rightarrow> string" where
  "dec_string eng d =
     (case d of
        DInf sg \<Rightarrow> (if sg then ''-'' else '''') @ ''Infinity''
      | DNaN sg sig payload \<Rightarrow>
          (if sg then ''-'' else '''') @ (if sig then ''sNaN'' else ''NaN'') @ payload
      | DFin sg c e \<Rightarrow>
          (let digits = show_nat c;
               n = int (length digits);
               leftdigits = e + n;
               dotplace =
                 (if e \<le> 0 \<and> leftdigits > - 6 then leftdigits
                  else if \<not> eng then 1
                  else if c = 0 then (leftdigits + 1) mod 3 - 1
                  else (leftdigits - 1) mod 3 + 1);
               intpart =
                 (if dotplace \<le> 0 then ''0''
                  else if dotplace \<ge> n then digits @ replicate (nat (dotplace - n)) CHR ''0''
                  else take (nat dotplace) digits);
               fracpart =
                 (if dotplace \<le> 0 then CHR ''.'' # replicate (nat (- dotplace)) CHR ''0'' @ digits
                  else if dotplace \<ge> n then ''''
                  else CHR ''.'' # drop (nat dotplace) digits);
               ex = (if leftdigits = dotplace then ''''
                     else CHR ''E'' # show_signed (leftdigits - dotplace))
           in (if sg then ''-'' else '''') @ intpart @ fracpart @ ex))"

definition to_eng_string :: "dec \<Rightarrow> string" where
  "to_eng_string d = dec_string True d"

text \<open>
  \<open>Decimal(s)\<close> for a string: white space is stripped and underscores are dropped; then a
  sign, and either digits with an optional fraction and exponent (at least one digit before
  the exponent), or \<open>Inf\<close>, \<open>Infinity\<close>, \<open>NaN\<close> or \<open>sNaN\<close> with a payload of digits, in any
  letter case. \<open>None\<close> stands for \<open>InvalidOperation\<close>.
\<close>

definition all_digits :: "string \<Rightarrow> bool" where
  "all_digits s = list_all is_digit s"

definition digits_nat :: "string \<Rightarrow> nat" where
  "digits_nat s = foldl (\<lambda>acc c. 10 * acc + digit_val c) 0 s"

definition dec_exponent :: "string \<Rightarrow> int option" where
  "dec_exponent s =
     (case s of
        [] \<Rightarrow> Some 0
      | c # cs \<Rightarrow>
          if c \<notin> set ''eE'' then None
          else (case cs of
                  [] \<Rightarrow> None
                | d # ds \<Rightarrow>
                    if d = CHR ''-'' then
                      (if ds \<noteq> [] \<and> all_digits ds then Some (- int (digits_nat ds)) else None)
                    else if d = CHR ''+'' then
                      (if ds \<noteq> [] \<and> all_digits ds then Some (int (digits_nat ds)) else None)
                    else if all_digits cs then Some (int (digits_nat cs)) else None))"

definition dec_number :: "bool \<Rightarrow> string \<Rightarrow> dec option" where
  "dec_number sg s =
     (let intpart = takeWhile is_digit s;
          rest = dropWhile is_digit s;
          frac = (case rest of [] \<Rightarrow> []
                  | c # cs \<Rightarrow> if c = CHR ''.'' then takeWhile is_digit cs else []);
          rest' = (case rest of [] \<Rightarrow> []
                   | c # cs \<Rightarrow> if c = CHR ''.'' then dropWhile is_digit cs else rest)
      in if intpart = [] \<and> frac = [] then None
         else (case dec_exponent rest' of
                 None \<Rightarrow> None
               | Some ex \<Rightarrow> Some (DFin sg (digits_nat (intpart @ frac)) (ex - int (length frac)))))"

definition dec_special :: "bool \<Rightarrow> string \<Rightarrow> dec option" where
  "dec_special sg s =
     (let l = lower s
      in if l = ''inf'' \<or> l = ''infinity'' then Some (DInf sg)
         else if take 3 l = ''nan'' \<and> all_digits (drop 3 l) then
           Some (DNaN sg False (dropWhile (\<lambda>c. c = CHR ''0'') (drop 3 l)))
         else if take 4 l = ''snan'' \<and> all_digits (drop 4 l) then
           Some (DNaN sg True (dropWhile (\<lambda>c. c = CHR ''0'') (drop 4 l)))
         else None)"

definition dec_of_str :: "string \<Rightarrow> dec option" where
  "dec_of_str s0 =
     (let s = filter (\<lambda>c. c \<noteq> CHR ''_'') (strip s0);
          sg = (take 1 s = ''-'');
          body = (if take 1 s = ''-'' \<or> take 1 s = ''+'' then drop 1 s else s)
      in case dec_number sg body of
           Some d \<Rightarrow> Some d
         | None \<Rightarrow> dec_special sg body)"

text \<open>
  The default context of the \<open>decimal\<close> module: 28 digits, exponents up to 999999, and
  \<open>ROUND_HALF_EVEN\<close> when no rounding is given.
\<close>

definition ctx_prec :: int where "ctx_prec = 28"
definition ctx_Emax :: int where "ctx_Emax = 999999"
definition ctx_Etiny :: int where "ctx_Etiny = - 999999 - 28 + 1"

text \<open>
  Whether a coefficient \<open>q\<close>, cut off with a remainder \<open>r\<close> out of \<open>m\<close>, is rounded away from
  zero.
\<close>

definition round_away :: "rounding \<Rightarrow> bool \<Rightarrow> nat \<Rightarrow> nat \<Rightarrow> nat \<Rightarrow> bool" where
  "round_away mode sg q r m =
     (case mode of
        ROUND_DOWN \<Rightarrow> False
      | ROUND_UP \<Rightarrow> r \<noteq> 0
      | ROUND_CEILING \<Rightarrow> \<not> sg \<and> r \<noteq> 0
      | ROUND_FLOOR \<Rightarrow> sg \<and> r \<noteq> 0
      | ROUND_HALF_UP \<Rightarrow> 2 * r \<ge> m
      | ROUND_HALF_DOWN \<Rightarrow> 2 * r > m
      | ROUND_HALF_EVEN \<Rightarrow> 2 * r > m \<or> (2 * r = m \<and> odd q)
      | ROUND_05UP \<Rightarrow> r \<noteq> 0 \<and> (q mod 10 = 0 \<or> q mod 10 = 5))"

text \<open>\<open>Decimal._rescale(exp, rounding)\<close> on a coefficient and an exponent.\<close>

definition rescale :: "rounding \<Rightarrow> bool \<Rightarrow> nat \<Rightarrow> int \<Rightarrow> int \<Rightarrow> nat" where
  "rescale mode sg c e ex =
     (if e \<ge> ex then c * 10 ^ nat (e - ex)
      else (let m = 10 ^ nat (ex - e); q = c div m; r = c mod m
            in if round_away mode sg q r m then q + 1 else q))"

definition adjusted :: "nat \<Rightarrow> int \<Rightarrow> int" where
  "adjusted c e = e + int (length (show_nat c)) - 1"

text \<open>\<open>value.quantize(places, rounding=rounding)\<close> for a finite \<open>value\<close>.\<close>

definition quantize :: "dec \<Rightarrow> dec \<Rightarrow> rounding option \<Rightarrow> exn + dec" where
  "quantize v places rnd =
     (let mode = (case rnd of None \<Rightarrow> ROUND_HALF_EVEN | Some m \<Rightarrow> m)
      in case (v, places) of
           (DFin sg c e, DFin _ _ ex) \<Rightarrow>
             if \<not> (ctx_Etiny \<le> ex \<and> ex \<le> ctx_Emax) then Inl InvalidOperation
             else if c = 0 then Inr (DFin sg 0 ex)
             else if adjusted c e > ctx_Emax then Inl InvalidOperation
             else if adjusted c e - ex + 1 > ctx_prec then Inl InvalidOperation
             else (let c' = rescale mode sg c e ex
                   in if adjusted c' ex > ctx_Emax then Inl InvalidOperation
                      else if int (length (show_nat c')) > ctx_prec then Inl InvalidOperation
                      else Inr (DFin sg c' ex))
         | (DFin sg c e, DInf _) \<Rightarrow> Inl InvalidOperation
         | (DFin sg c e, DNaN s sig p) \<Rightarrow>
             if sig then Inl InvalidOperation else Inr (DNaN s False p)
         | (DInf sg, DInf _) \<Rightarrow> Inr (DInf sg)
         | (DInf sg, DFin _ _ _) \<Rightarrow> Inl InvalidOperation
         | (DInf sg, DNaN s sig p) \<Rightarrow>
             if sig then Inl InvalidOperation else Inr (DNaN s False p)
         | (DNaN s sig p, _) \<Rightarrow>
             if sig then Inl InvalidOperation else Inr (DNaN s False p))"

definition is_finite :: "dec \<Rightarrow> bool" where
  "is_finite d = (case d of DFin _ _ _ \<Rightarrow> True | _ \<Rightarrow> False)"

subsection \<open>Numbers: exact values, equality and order\<close>

datatype ext = NegInf | Fin rat | PosInf

definition dec_rat :: "nat \<Rightarrow> int \<Rightarrow> rat" where
  "dec_rat c e = (if e \<ge> 0 then of_nat c * 10 ^ nat e else of_nat c / 10 ^ nat (- e))"

text \<open>The exact value of a number; \<open>None\<close> for a NaN and for a value that is no number.\<close>

definition num_of :: "pyval \<Rightarrow> ext option" where
  "num_of v =
     (case v of
        PBool b \<Rightarrow> Some (Fin (if b then 1 else 0))
      | PInt i \<Rightarrow> Some (Fin (of_int i))
      | PFloat (FFin r) \<Rightarrow> Some (Fin r)
      | PFloat (FInf sg) \<Rightarrow> Some (if sg then NegInf else PosInf)
      | PDec (DFin sg c e) \<Rightarrow> Some (Fin (if sg then - dec_rat c e else dec_rat c e))
      | PDec (DInf sg) \<Rightarrow> Some (if sg then NegInf else PosInf)
      | _ \<Rightarrow> None)"

definition is_number :: "pyval \<Rightarrow> bool" where
  "is_number v = (case v of PBool _ \<Rightarrow> True | PInt _ \<Rightarrow> True | PFloat _ \<Rightarrow> True
                  | PDec _ \<Rightarrow> True | _ \<Rightarrow> False)"

definition is_decimal :: "pyval \<Rightarrow> bool" where
  "is_decimal v = (case v of PDec _ \<Rightarrow> True | _ \<Rightarrow> False)"

fun ext_lt :: "ext \<Rightarrow> ext \<Rightarrow> bool" where
  "ext_lt NegInf b = (b \<noteq> NegInf)"
| "ext_lt (Fin x) (Fin y) = (x < y)"
| "ext_lt (Fin x) PosInf = True"
| "ext_lt (Fin x) NegInf = False"
| "ext_lt PosInf b = False"

text \<open>
  \<open>a < b\<close>. Two numbers are compared by their values; a NaN compares false, but raises
  \<open>InvalidOperation\<close> when a decimal takes part. A number and a value of another type, or
  \<open>None\<close> and anything, is a \<open>TypeError\<close>. Values of the same other type are left to the
  runtime.
\<close>

definition same_kind :: "pyval \<Rightarrow> pyval \<Rightarrow> bool" where
  "same_kind a b =
     (case (a, b) of
        (PStr _, PStr _) \<Rightarrow> True
      | (PList _, PList _) \<Rightarrow> True
      | (PTuple _, PTuple _) \<Rightarrow> True
      | (PDateTime _, PDateTime _) \<Rightarrow> True
      | _ \<Rightarrow> False)"

definition py_lt :: "runtime \<Rightarrow> pyval \<Rightarrow> pyval \<Rightarrow> exn + bool" where
  "py_lt rt a b =
     (if is_number a \<and> is_number b then
        (case (num_of a, num_of b) of
           (Some x, Some y) \<Rightarrow> Inr (ext_lt x y)
         | _ \<Rightarrow> if is_decimal a \<or> is_decimal b then Inl InvalidOperation else Inr False)
      else if same_kind a b then lt_other rt a b
      else Inl TypeError)"

text \<open>\<open>a > b\<close> is \<open>b < a\<close>.\<close>

definition py_gt :: "runtime \<Rightarrow> pyval \<Rightarrow> pyval \<Rightarrow> exn + bool" where
  "py_gt rt a b = py_lt rt b a"

text \<open>
  \<open>a == b\<close>, for the membership tests: numbers by value, other values by structure, a number
  never equal to a value that is no number.
\<close>

definition py_eq :: "pyval \<Rightarrow> pyval \<Rightarrow> bool" where
  "py_eq a b =
     (if is_number a \<and> is_number b then
        (case (num_of a, num_of b) of (Some x, Some y) \<Rightarrow> x = y | _ \<Rightarrow> False)
      else a = b)"

text \<open>\<open>hash(v)\<close> raises \<open>TypeError\<close> for a list, a mapping, a signalling NaN and a tuple that holds one.\<close>

fun hashable :: "pyval \<Rightarrow> bool" where
  "hashable (PList xs) = False"
| "hashable (PDict kvs) = False"
| "hashable (PTuple xs) = list_all hashable xs"
| "hashable (PDec (DNaN sg sig p)) = (\<not> sig)"
| "hashable v = True"

text \<open>\<open>v in s\<close> for a set \<open>s\<close>, given as the list of its members.\<close>

definition in_set :: "pyval \<Rightarrow> pyval list \<Rightarrow> exn + bool" where
  "in_set v s = (if hashable v then Inr (list_ex (py_eq v) s) else Inl TypeError)"

subsection \<open>\<open>str\<close>, \<open>int\<close>, \<open>float\<close>, \<open>len\<close>\<close>

definition py_str :: "runtime \<Rightarrow> pyval \<Rightarrow> string" where
  "py_str rt v =
     (case v of
        PStr s \<Rightarrow> s
      | PNone \<Rightarrow> ''None''
      | PBool b \<Rightarrow> (if b then ''True'' else ''False'')
      | PInt i \<Rightarrow> show_int i
      | PDec d \<Rightarrow> dec_string False d
      | _ \<Rightarrow> str_other rt v)"

text \<open>Rounding a rational towards zero, as \<open>int\<close> does with a float or a decimal.\<close>

definition trunc :: "rat \<Rightarrow> int" where
  "trunc r = (if r < 0 then - \<lfloor>- r\<rfloor> else \<lfloor>r\<rfloor>)"

definition py_int :: "pyval \<Rightarrow> exn + int" where
  "py_int v =
     (case v of
        PInt i \<Rightarrow> Inr i
      | PBool b \<Rightarrow> Inr (if b then 1 else 0)
      | PStr s \<Rightarrow> int_of s
      | PFloat (FFin r) \<Rightarrow> Inr (trunc r)
      | PFloat (FInf sg) \<Rightarrow> Inl OverflowError
      | PFloat FNaN \<Rightarrow> Inl (ValueError ''cannot convert float NaN to integer'')
      | PDec (DFin sg c e) \<Rightarrow> Inr (trunc (if sg then - dec_rat c e else dec_rat c e))
      | PDec (DInf sg) \<Rightarrow> Inl OverflowError
      | PDec (DNaN sg sig p) \<Rightarrow> Inl (ValueError ''cannot convert NaN to integer'')
      | _ \<Rightarrow> Inl TypeError)"

definition py_float :: "runtime \<Rightarrow> pyval \<Rightarrow> exn + fl" where
  "py_float rt v =
     (case v of
        PFloat f \<Rightarrow> Inr f
      | PBool b \<Rightarrow> Inr (FFin (if b then 1 else 0))
      | PInt i \<Rightarrow> float_of_int rt i
      | PStr s \<Rightarrow> (case float_of_str rt s of
                     None \<Rightarrow> Inl (ValueError ''could not convert string to float'')
                   | Some f \<Rightarrow> Inr f)
      | PDec (DNaN sg sig p) \<Rightarrow>
          if sig then Inl (ValueError ''cannot convert signaling NaN to float'') else Inr FNaN
      | PDec d \<Rightarrow> (case float_of_str rt (dec_string False d) of
                     None \<Rightarrow> Inl (ValueError ''could not convert string to float'')
                   | Some f \<Rightarrow> Inr f)
      | _ \<Rightarrow> Inl TypeError)"

definition py_len :: "pyval \<Rightarrow> exn + int" where
  "py_len v =
     (case v of
        PStr s \<Rightarrow> Inr (int (length s))
      | PList xs \<Rightarrow> Inr (int (length xs))
      | PTuple xs \<Rightarrow> Inr (int (length xs))
      | PDict kvs \<Rightarrow> Inr (int (length kvs))
      | _ \<Rightarrow> Inl TypeError)"

text \<open>\<open>bool(v)\<close>\<close>

definition py_bool :: "pyval \<Rightarrow> bool" where
  "py_bool v =
     (case v of
        PNone \<Rightarrow> False
      | PBool b \<Rightarrow> b
      | PInt i \<Rightarrow> i \<noteq> 0
      | PFloat f \<Rightarrow> f \<noteq> FFin 0
      | PStr s \<Rightarrow> s \<noteq> []
      | PList xs \<Rightarrow> xs \<noteq> []
      | PTuple xs \<Rightarrow> xs \<noteq> []
      | PDict kvs \<Rightarrow> kvs \<noteq> []
      | PDec (DFin sg c e) \<Rightarrow> c \<noteq> 0
      | _ \<Rightarrow> True)"

section \<open>fields.py: declarations, state and messages\<close>

datatype kind =
    IntField | FloatField | StrField | DecimalField | DateTime | BooleanField | EnumField

definition class_name :: "kind \<Rightarrow> string" where
  "class_name k =
     (case k of
        IntField \<Rightarrow> ''IntField'' | FloatField \<Rightarrow> ''FloatField'' | StrField \<Rightarrow> ''StrField''
      | DecimalField \<Rightarrow> ''DecimalField'' | DateTime \<Rightarrow> ''DateTime''
      | BooleanField \<Rightarrow> ''BooleanField'' | EnumField \<Rightarrow> ''EnumField'')"

text \<open>
  A field declaration: the attributes that \<open>__init__\<close> and \<open>__set_name__\<close> set and that stay
  the same from then on. The attributes of all subclasses are in the one record; a class
  that has none of a kind leaves it at \<open>None\<close>. A validator and a preprocessor are Python
  functions: they return or raise.
\<close>

record field =
  kind :: kind
  attr_name :: string
  verbose_name :: string
  required :: bool
  default_value :: pyval
  convert_to_none_strings :: "string list"
  validators :: "(pyval \<Rightarrow> exn + unit) list"
  preprocessors :: "(pyval \<Rightarrow> exn + pyval) list"
  error_messages :: "(string \<times> pyval) list"
  min_value :: pyval
  max_value :: pyval
  min_len :: pyval
  max_len :: pyval
  places :: "dec option"
  places_limit :: "int option"
  rounding :: "rounding option"
  format :: "string option"
  enumeration :: "pyval list"

definition private_name :: "field \<Rightarrow> string" where
  "private_name f = CHR ''_'' # attr_name f"

text \<open>
  The record instance a value is assigned on: its \<open>row_number\<close> and its attribute \<open>fields\<close>
  (\<open>None\<close> when the instance and its class have none; the value is \<open>None\<close> or a mapping from
  attribute names to declarations), and its other attributes.
\<close>

record owner =
  row_number :: "pyval option"
  fields_attr :: "(string \<times> field) list option option"
  attrs :: "(string \<times> pyval) list"

text \<open>
  \<open>self.errors\<close> is the list that \<open>__init__\<close> creates or the \<open>defaultdict(list)\<close> that
  \<open>__set__\<close> puts in its place. Nothing ever stores a key in the latter.
\<close>

datatype errs = ErrList "pyval list" | ErrDefaultDict

text \<open>The attributes of a declaration that change with every value.\<close>

record fstate =
  owner :: "owner option"
  original_value :: pyval
  is_error :: bool
  errors :: errs

text \<open>The state \<open>__init__\<close> leaves.\<close>

definition init_state :: fstate where
  "init_state = \<lparr>owner = None, original_value = PNone, is_error = False, errors = ErrList []\<rparr>"

text \<open>What a method does: it returns a value or raises, and leaves a state either way.\<close>

type_synonym 'a effect = "fstate \<Rightarrow> (exn + 'a) \<times> fstate"

definition returnS :: "'a \<Rightarrow> 'a effect" where
  "returnS a st = (Inr a, st)"

definition raiseS :: "exn \<Rightarrow> 'a effect" where
  "raiseS e st = (Inl e, st)"

definition bindS :: "'a effect \<Rightarrow> ('a \<Rightarrow> 'b effect) \<Rightarrow> 'b effect" where
  "bindS m k st = (case m st of (Inl e, st') \<Rightarrow> (Inl e, st') | (Inr a, st') \<Rightarrow> k a st')"

text \<open>A computation that does not touch the state.\<close>

definition liftS :: "exn + 'a \<Rightarrow> 'a effect" where
  "liftS r st = (r, st)"

subsection \<open>Message templates\<close>

text \<open>
  \<open>template.format(**kwargs)\<close> for the templates in use: text, doubled braces, and fields
  \<open>{name}\<close> replaced by the \<open>str\<close> of the argument of that name. A name without argument is a
  \<open>KeyError\<close>, an unmatched brace a \<open>ValueError\<close>.
\<close>

fun format_text :: "runtime \<Rightarrow> (string \<times> pyval) list \<Rightarrow> string \<Rightarrow> exn + string"
  and format_field :: "runtime \<Rightarrow> (string \<times> pyval) list \<Rightarrow> string \<Rightarrow> string \<Rightarrow> exn + string"
where
  "format_text rt kw [] = Inr []"
| "format_text rt kw (c # cs) =
     (if c = CHR ''{'' then
        (case cs of
           [] \<Rightarrow> Inl (ValueError ''Single { encountered in format string'')
         | d # ds \<Rightarrow>
             if d = CHR ''{'' then
               (case format_text rt kw ds of Inl e \<Rightarrow> Inl e | Inr out \<Rightarrow> Inr (CHR ''{'' # out))
             else format_field rt kw [] cs)
      else if c = CHR ''}'' then
        (case cs of
           [] \<Rightarrow> Inl (ValueError ''Single } encountered in format string'')
         | d # ds \<Rightarrow>
             if d = CHR ''}'' then
               (case format_text rt kw ds of Inl e \<Rightarrow> Inl e | Inr out \<Rightarrow> Inr (CHR ''}'' # out))
             else Inl (ValueError ''Single } encountered in format string''))
      else (case format_text rt kw cs of Inl e \<Rightarrow> Inl e | Inr out \<Rightarrow> Inr (c # out)))"
| "format_field rt kw name [] = Inl (ValueError ''expected } before end of string'')"
| "format_field rt kw name (c # cs) =
     (if c = CHR ''}'' then
        (case map_of kw name of
           None \<Rightarrow> Inl KeyError
         | Some v \<Rightarrow>
             (case format_text rt kw cs of
                Inl e \<Rightarrow> Inl e
              | Inr out \<Rightarrow> Inr (py_str rt v @ out)))
      else format_field rt kw (name @ [c]) cs)"

text \<open>The constants of \<open>constants.py\<close> and the class attributes \<open>default_error_messages\<close>.\<close>

definition REQUIRED_message :: string where
  "REQUIRED_message = ''Missing Value - {field} = : Row {row_number}.''"

definition INCORRECT_FORMAT_message :: string where
  "INCORRECT_FORMAT_message =
     ''Incorrect Format - {field} = '' @ [CHR 0x22] @ ''{value}'' @ [CHR 0x22]
       @ '' : Row {row_number}.''"

definition MISSING_ERROR_MESSAGE :: string where
  "MISSING_ERROR_MESSAGE =
     ''ValidationError raised by `{class_name}`, but error key `{key}` does ''
     @ ''not exist in the `error_messages` dictionary.''"

definition Field_default_error_messages :: "(string \<times> pyval) list" where
  "Field_default_error_messages =
     [(''required'', PStr REQUIRED_message), (''format'', PStr INCORRECT_FORMAT_message)]"

definition DateTime_default_error_messages :: "(string \<times> pyval) list" where
  "DateTime_default_error_messages =
     [(''invalid'', PStr ''Not a valid {obj_type}.''),
      (''invalid_awareness'', PStr ''Not a valid {awareness} {obj_type}.''),
      (''format'', PStr ([CHR 0x22] @ ''{input}'' @ [CHR 0x22]
                         @ '' cannot be formatted as a {obj_type}.''))]"

text \<open>
  \<open>self.error_messages\<close>: the defaults of the classes from \<open>Field\<close> down to the field's class,
  each level overriding the one above, then the messages given to \<open>__init__\<close>. The first
  entry of a key in the list is the one in force.
\<close>

definition resolved_messages :: "field \<Rightarrow> (string \<times> pyval) list" where
  "resolved_messages f =
     error_messages f
     @ (if kind f = DateTime then DateTime_default_error_messages else [])
     @ Field_default_error_messages"

text \<open>\<open>kwargs[k] = v\<close>\<close>

definition set_item :: "string \<Rightarrow> pyval \<Rightarrow> (string \<times> pyval) list \<Rightarrow> (string \<times> pyval) list" where
  "set_item k v kw = (k, v) # filter (\<lambda>p. fst p \<noteq> k) kw"

text \<open>\<open>self.errors.append(msg)\<close>: a \<open>defaultdict\<close> has no attribute \<open>append\<close>.\<close>

definition errors_append :: "pyval \<Rightarrow> unit effect" where
  "errors_append msg st =
     (case errors st of
        ErrList xs \<Rightarrow> (Inr (), st\<lparr>errors := ErrList (xs @ [msg])\<rparr>)
      | ErrDefaultDict \<Rightarrow> (Inl AttributeError, st))"

definition Field_make_error :: "runtime \<Rightarrow> field \<Rightarrow> string \<Rightarrow> (string \<times> pyval) list \<Rightarrow> unit effect" where
  "Field_make_error rt f key kwargs0 st =
     (case owner st of
        None \<Rightarrow> (Inl AttributeError, st)
      | Some ow \<Rightarrow>
          (case row_number ow of
             None \<Rightarrow> (Inl AttributeError, st)
           | Some rn \<Rightarrow>
               (let kwargs = set_item ''field'' (PStr (verbose_name f))
                               (set_item ''row_number'' rn kwargs0);
                    looked = (case map_of (resolved_messages f) key of
                                Some m \<Rightarrow> Inr m
                              | None \<Rightarrow>
                                  (case format_text rt
                                          [(''class_name'', PStr (class_name (kind f))),
                                           (''key'', PStr key)] MISSING_ERROR_MESSAGE of
                                     Inl e \<Rightarrow> Inl e
                                   | Inr s \<Rightarrow> Inr (PStr s)));
                    formatted = (case looked of
                                   Inl e \<Rightarrow> Inl e
                                 | Inr (PStr t) \<Rightarrow>
                                     (case format_text rt kwargs t of
                                        Inl e \<Rightarrow> Inl e
                                      | Inr s \<Rightarrow> Inr (PStr s))
                                 | Inr m \<Rightarrow> Inr m)
                in case formatted of
                     Inl e \<Rightarrow> (Inl e, st)
                   | Inr msg \<Rightarrow>
                       bindS (errors_append msg)
                         (\<lambda>_ st'. (Inr (), st'\<lparr>is_error := True\<rparr>)) st)))"

section \<open>fields.py: the pipeline of \<open>Field\<close>\<close>

definition EMPTY_VALUES :: "pyval list" where
  "EMPTY_VALUES = [PNone, PStr [], PList [], PTuple [], PDict []]"

text \<open>
  \<open>value in EMPTY_VALUES\<close>: membership in a tuple compares with \<open>==\<close>, and none of the five
  equals a value other than itself.
\<close>

definition is_empty_value :: "pyval \<Rightarrow> bool" where
  "is_empty_value v = (v \<in> set EMPTY_VALUES)"

definition default_convert_to_none_strings :: "string list" where
  "default_convert_to_none_strings = [''null'']"

text \<open>The list \<open>self.convert_to_none_strings\<close> that \<open>__init__\<close> builds.\<close>

definition none_strings :: "field \<Rightarrow> string list" where
  "none_strings f = default_convert_to_none_strings @ convert_to_none_strings f"

definition pre_process_value :: "runtime \<Rightarrow> field \<Rightarrow> pyval \<Rightarrow> pyval" where
  "pre_process_value rt f v =
     (case v of
        PStr s \<Rightarrow>
          (let v1 = (if strip s = [] then PNone else PStr (strip s))
           in if lower (py_str rt v1) \<in> set (none_strings f) then PNone else v1)
      | _ \<Rightarrow> v)"

fun apply_preprocessors ::
  "runtime \<Rightarrow> field \<Rightarrow> pyval \<Rightarrow> (pyval \<Rightarrow> exn + pyval) list \<Rightarrow> pyval \<Rightarrow> pyval effect" where
  "apply_preprocessors rt f orig [] v = returnS v"
| "apply_preprocessors rt f orig (p # ps) v =
     (case p v of
        Inr v' \<Rightarrow> apply_preprocessors rt f orig ps v'
      | Inl ValidationError \<Rightarrow>
          bindS (Field_make_error rt f ''incorrect_format'' [(''value'', orig)])
            (\<lambda>_. returnS PNone)
      | Inl e \<Rightarrow> raiseS e)"

definition Field_run_preprocessors :: "runtime \<Rightarrow> field \<Rightarrow> pyval \<Rightarrow> pyval effect" where
  "Field_run_preprocessors rt f v =
     (if is_empty_value v then returnS v
      else apply_preprocessors rt f v (preprocessors f) v)"

definition Field_validate_required :: "runtime \<Rightarrow> field \<Rightarrow> pyval \<Rightarrow> unit effect" where
  "Field_validate_required rt f v =
     (if v = PNone \<and> required f then Field_make_error rt f ''required'' [(''value'', v)]
      else returnS ())"

fun apply_validators ::
  "runtime \<Rightarrow> field \<Rightarrow> (pyval \<Rightarrow> exn + unit) list \<Rightarrow> pyval \<Rightarrow> unit effect" where
  "apply_validators rt f [] v = returnS ()"
| "apply_validators rt f (c # cs) v =
     (case c v of
        Inr _ \<Rightarrow> apply_validators rt f cs v
      | Inl ValidationError \<Rightarrow>
          (\<lambda>st. bindS (Field_make_error rt f ''incorrect_format''
                          [(''value'', original_value st)])
                   (\<lambda>_. apply_validators rt f cs v) st)
      | Inl e \<Rightarrow> raiseS e)"

definition Field_run_validators :: "runtime \<Rightarrow> field \<Rightarrow> pyval \<Rightarrow> unit effect" where
  "Field_run_validators rt f v =
     (if is_empty_value v then returnS () else apply_validators rt f (validators f) v)"

text \<open>\<open>self._make_error("incorrect_format", value=self.original_value)\<close>\<close>

definition format_error :: "runtime \<Rightarrow> field \<Rightarrow> unit effect" where
  "format_error rt f st =
     Field_make_error rt f ''incorrect_format'' [(''value'', original_value st)] st"

section \<open>fields.py: the typed fields\<close>

subsection \<open>\<open>NumberField\<close>, \<open>IntField\<close>, \<open>FloatField\<close>\<close>

definition NumberField_validate :: "runtime \<Rightarrow> field \<Rightarrow> pyval \<Rightarrow> pyval effect" where
  "NumberField_validate rt f v =
     bindS (liftS (if v \<noteq> PNone \<and> min_value f \<noteq> PNone then py_gt rt (min_value f) v
                   else Inr False))
       (\<lambda>below.
          bindS (if below then bindS (format_error rt f) (\<lambda>_. returnS PNone) else returnS v)
            (\<lambda>v1.
               bindS (liftS (if v1 \<noteq> PNone \<and> max_value f \<noteq> PNone
                             then py_lt rt (min_value f) v1 else Inr False))
                 (\<lambda>above.
                    if above then bindS (format_error rt f) (\<lambda>_. returnS PNone)
                    else returnS v1)))"

definition IntField_deserialize :: "runtime \<Rightarrow> field \<Rightarrow> pyval \<Rightarrow> pyval effect" where
  "IntField_deserialize rt f v =
     (case py_int v of
        Inr i \<Rightarrow> returnS (PInt i)
      | Inl (ValueError m) \<Rightarrow> bindS (format_error rt f) (\<lambda>_. returnS PNone)
      | Inl e \<Rightarrow> raiseS e)"

definition FloatField_deserialize :: "runtime \<Rightarrow> field \<Rightarrow> pyval \<Rightarrow> pyval effect" where
  "FloatField_deserialize rt f v =
     (case py_float rt v of
        Inr x \<Rightarrow> returnS (PFloat x)
      | Inl (ValueError m) \<Rightarrow> bindS (format_error rt f) (\<lambda>_. returnS PNone)
      | Inl e \<Rightarrow> raiseS e)"

subsection \<open>\<open>StrField\<close>\<close>

text \<open>The condition of \<open>StrField.validate\<close>; \<open>or\<close> does not look at its right side when the left holds.\<close>

definition length_violated :: "runtime \<Rightarrow> field \<Rightarrow> pyval \<Rightarrow> exn + bool" where
  "length_violated rt f v =
     (if v = PNone then Inr False
      else
        (case (if min_len f \<noteq> PNone then
                 (case py_len v of Inl e \<Rightarrow> Inl e | Inr n \<Rightarrow> py_lt rt (PInt n) (min_len f))
               else Inr False) of
           Inl e \<Rightarrow> Inl e
         | Inr True \<Rightarrow> Inr True
         | Inr False \<Rightarrow>
             if max_len f \<noteq> PNone then
               (case py_len v of Inl e \<Rightarrow> Inl e | Inr n \<Rightarrow> py_gt rt (PInt n) (max_len f))
             else Inr False))"

definition StrField_validate :: "runtime \<Rightarrow> field \<Rightarrow> pyval \<Rightarrow> pyval effect" where
  "StrField_validate rt f v =
     (case length_violated rt f v of
        Inr True \<Rightarrow> bindS (format_error rt f) (\<lambda>_. returnS PNone)
      | Inr False \<Rightarrow> returnS PNone
      | Inl (ValueError m) \<Rightarrow> bindS (format_error rt f) (\<lambda>_. returnS PNone)
      | Inl e \<Rightarrow> raiseS e)"

definition StrField_deserialize :: "runtime \<Rightarrow> field \<Rightarrow> pyval \<Rightarrow> pyval effect" where
  "StrField_deserialize rt f v = returnS (PStr (strip (py_str rt v)))"

subsection \<open>\<open>DecimalField\<close>\<close>

text \<open>
  \<open>value.as_tuple().exponent\<close> is an integer for a finite decimal and a letter otherwise,
  of which \<open>abs\<close> is a \<open>TypeError\<close>; a value that is no decimal has no \<open>as_tuple\<close>.
\<close>

definition abs_exponent :: "pyval \<Rightarrow> exn + int" where
  "abs_exponent v =
     (case v of
        PDec (DFin sg c e) \<Rightarrow> Inr \<bar>e\<bar>
      | PDec _ \<Rightarrow> Inl TypeError
      | _ \<Rightarrow> Inl AttributeError)"

definition DecimalField_validate_place :: "runtime \<Rightarrow> field \<Rightarrow> pyval \<Rightarrow> pyval effect" where
  "DecimalField_validate_place rt f v =
     (case places_limit f of
        None \<Rightarrow> returnS v
      | Some limit \<Rightarrow>
          if limit = 0 then returnS v
          else
            (case abs_exponent v of
               Inl e \<Rightarrow> raiseS e
             | Inr n \<Rightarrow>
                 if n > limit then
                   (case v of
                      PDec d \<Rightarrow>
                        bindS (Field_make_error rt f ''incorrect_format''
                                 [(''value'', PStr (to_eng_string d))])
                          (\<lambda>_. returnS PNone)
                    | _ \<Rightarrow> raiseS AttributeError)
                 else returnS v))"

text \<open>\<open>self.places is not None and value.is_finite()\<close>, then \<open>value.quantize(...)\<close>.\<close>

definition quantized :: "field \<Rightarrow> pyval \<Rightarrow> exn + pyval" where
  "quantized f v =
     (case places f of
        None \<Rightarrow> Inr v
      | Some p \<Rightarrow>
          (case v of
             PDec d \<Rightarrow>
               if is_finite d then
                 (case quantize d p (rounding f) of Inl e \<Rightarrow> Inl e | Inr q \<Rightarrow> Inr (PDec q))
               else Inr v
           | _ \<Rightarrow> Inl AttributeError))"

definition out_of_range :: "runtime \<Rightarrow> field \<Rightarrow> pyval \<Rightarrow> exn + bool" where
  "out_of_range rt f v =
     (if v = PNone then Inr False
      else
        (case (if min_value f \<noteq> PNone then py_lt rt v (min_value f) else Inr False) of
           Inl e \<Rightarrow> Inl e
         | Inr True \<Rightarrow> Inr True
         | Inr False \<Rightarrow> if max_value f \<noteq> PNone then py_gt rt v (max_value f) else Inr False))"

definition DecimalField_validate :: "runtime \<Rightarrow> field \<Rightarrow> pyval \<Rightarrow> pyval effect" where
  "DecimalField_validate rt f v =
     bindS (DecimalField_validate_place rt f v)
       (\<lambda>_. bindS (liftS (quantized f v))
          (\<lambda>v'. bindS (liftS (out_of_range rt f v'))
             (\<lambda>bad. if bad then bindS (format_error rt f) (\<lambda>_. returnS PNone)
                     else returnS PNone)))"

definition DecimalField_deserialize :: "runtime \<Rightarrow> field \<Rightarrow> pyval \<Rightarrow> pyval effect" where
  "DecimalField_deserialize rt f v =
     (case dec_of_str (py_str rt v) of
        Some d \<Rightarrow> returnS (PDec d)
      | None \<Rightarrow> bindS (format_error rt f) (\<lambda>_. returnS PNone))"

subsection \<open>\<open>DateTime\<close>\<close>

text \<open>\<open>utils.from_iso_datetime(value)\<close>: \<open>re\<close> refuses a value that is no string.\<close>

definition from_iso_datetime_value :: "pyval \<Rightarrow> exn + datetime" where
  "from_iso_datetime_value v = (case v of PStr s \<Rightarrow> from_iso_datetime s | _ \<Rightarrow> Inl TypeError)"

definition from_rfc :: "runtime \<Rightarrow> pyval \<Rightarrow> exn + datetime" where
  "from_rfc rt v = parsedate_to_datetime rt v"

definition DEFAULT_FORMAT :: string where
  "DEFAULT_FORMAT = ''iso''"

definition data_format_of :: "field \<Rightarrow> string" where
  "data_format_of f = (case format f of None \<Rightarrow> DEFAULT_FORMAT
                       | Some s \<Rightarrow> if s = [] then DEFAULT_FORMAT else s)"

text \<open>The parse that \<open>DateTime.deserialize\<close> attempts: a function of the table, or \<open>strptime\<close>.\<close>

definition parse_attempt :: "runtime \<Rightarrow> field \<Rightarrow> pyval \<Rightarrow> exn + datetime" where
  "parse_attempt rt f v =
     (let data_format = data_format_of f
      in if data_format = ''iso'' \<or> data_format = ''iso8601'' then from_iso_datetime_value v
         else if data_format = ''rfc'' \<or> data_format = ''rfc822'' then from_rfc rt v
         else strptime rt v data_format)"

definition caught_by_DateTime :: "exn \<Rightarrow> bool" where
  "caught_by_DateTime e =
     (case e of TypeError \<Rightarrow> True | AttributeError \<Rightarrow> True | ValueError m \<Rightarrow> True | _ \<Rightarrow> False)"

text \<open>
  In the handler, \<open>raise self._make_error(...) from error\<close> first runs \<open>_make_error\<close>, which
  returns \<open>None\<close> when it does not raise; \<open>raise None\<close> is a \<open>TypeError\<close>.
\<close>

definition DateTime_deserialize :: "runtime \<Rightarrow> field \<Rightarrow> pyval \<Rightarrow> pyval effect" where
  "DateTime_deserialize rt f v =
     (case parse_attempt rt f v of
        Inr d \<Rightarrow> returnS (PDateTime d)
      | Inl e \<Rightarrow>
          if caught_by_DateTime e then
            bindS (Field_make_error rt f ''invalid''
                     [(''input'', v), (''obj_type'', PStr ''datetime'')])
              (\<lambda>_. raiseS TypeError)
          else raiseS e)"

subsection \<open>\<open>BooleanField\<close>\<close>

definition truthy :: "pyval list" where
  "truthy = [PStr ''t'', PStr ''T'', PStr ''true'', PStr ''True'', PStr ''TRUE'', PStr ''1'',
             PInt 1, PBool True, PStr ''yes'', PStr ''Yes'', PStr ''YES'']"

definition falsy :: "pyval list" where
  "falsy = [PStr ''f'', PStr ''F'', PStr ''false'', PStr ''False'', PStr ''FALSE'', PStr ''0'',
            PInt 0, PFloat (FFin 0), PBool False, PStr ''no'', PStr ''No'', PStr ''NO'']"

text \<open>The body of the \<open>try\<close> in \<open>BooleanField.deserialize\<close>.\<close>

definition boolean_lookup :: "runtime \<Rightarrow> field \<Rightarrow> pyval \<Rightarrow> pyval effect" where
  "boolean_lookup rt f v =
     bindS (liftS (in_set v truthy))
       (\<lambda>t. if t then returnS (PBool True)
             else bindS (liftS (in_set v falsy))
               (\<lambda>u. if u then returnS (PBool False)
                     else bindS (format_error rt f) (\<lambda>_. returnS PNone)))"

definition BooleanField_deserialize :: "runtime \<Rightarrow> field \<Rightarrow> pyval \<Rightarrow> pyval effect" where
  "BooleanField_deserialize rt f v st =
     (if truthy = [] then returnS (PBool (py_bool v)) st
      else
        (case boolean_lookup rt f v st of
           (Inl TypeError, st') \<Rightarrow> bindS (format_error rt f) (\<lambda>_. returnS PNone) st'
         | r \<Rightarrow> r))"

subsection \<open>\<open>EnumField\<close>\<close>

text \<open>
  The enumeration is the list of the values of its members, and \<open>PEnum v\<close> the member of
  value \<open>v\<close>. The comprehension calls \<open>lower\<close> on every member's value, outside the \<open>try\<close>.
\<close>

definition is_str :: "pyval \<Rightarrow> bool" where
  "is_str v = (case v of PStr s \<Rightarrow> True | _ \<Rightarrow> False)"

definition str_of :: "pyval \<Rightarrow> string" where
  "str_of v = (case v of PStr s \<Rightarrow> s | _ \<Rightarrow> [])"

definition enumeration_table :: "field \<Rightarrow> (string \<times> string) list" where
  "enumeration_table f = rev (map (\<lambda>m. (lower (str_of m), str_of m)) (enumeration f))"

definition EnumField_deserialize :: "runtime \<Rightarrow> field \<Rightarrow> pyval \<Rightarrow> pyval effect" where
  "EnumField_deserialize rt f v =
     (if \<not> list_all is_str (enumeration f) then raiseS AttributeError
      else
        (case v of
           PStr s \<Rightarrow>
             (case map_of (enumeration_table f) (lower s) of
                Some m \<Rightarrow> returnS (PEnum m)
              | None \<Rightarrow> bindS (format_error rt f) (\<lambda>_. returnS PNone))
         | _ \<Rightarrow> bindS (format_error rt f) (\<lambda>_. returnS PNone)))"

section \<open>fields.py: deserialization, assignment and reading\<close>

text \<open>The method \<open>deserialize\<close> and the hook \<open>validate\<close> of the field's class.\<close>

definition Field_deserialize :: "runtime \<Rightarrow> field \<Rightarrow> pyval \<Rightarrow> pyval effect" where
  "Field_deserialize rt f v =
     (case kind f of
        IntField \<Rightarrow> IntField_deserialize rt f v
      | FloatField \<Rightarrow> FloatField_deserialize rt f v
      | StrField \<Rightarrow> StrField_deserialize rt f v
      | DecimalField \<Rightarrow> DecimalField_deserialize rt f v
      | DateTime \<Rightarrow> DateTime_deserialize rt f v
      | BooleanField \<Rightarrow> BooleanField_deserialize rt f v
      | EnumField \<Rightarrow> EnumField_deserialize rt f v)"

definition Field_validate :: "runtime \<Rightarrow> field \<Rightarrow> pyval \<Rightarrow> pyval effect" where
  "Field_validate rt f v =
     (case kind f of
        IntField \<Rightarrow> NumberField_validate rt f v
      | FloatField \<Rightarrow> NumberField_validate rt f v
      | StrField \<Rightarrow> StrField_validate rt f v
      | DecimalField \<Rightarrow> DecimalField_validate rt f v
      | _ \<Rightarrow> returnS PNone)"

text \<open>\<open>Field._validate\<close>: what \<open>validate\<close> returns is dropped.\<close>

definition Field__validate :: "runtime \<Rightarrow> field \<Rightarrow> pyval \<Rightarrow> pyval effect" where
  "Field__validate rt f v =
     bindS (Field_validate rt f v)
       (\<lambda>_. bindS (Field_run_validators rt f v) (\<lambda>_. returnS v))"

text \<open>
  \<open>Field._deserialize\<close>: the required check and the test that guards \<open>deserialize\<close> look at
  the argument \<open>value\<close>, the other steps at \<open>output\<close>.
\<close>

definition Field__deserialize :: "runtime \<Rightarrow> field \<Rightarrow> pyval \<Rightarrow> pyval effect" where
  "Field__deserialize rt f v =
     bindS (Field_run_preprocessors rt f (pre_process_value rt f v))
       (\<lambda>output.
          bindS (Field_validate_required rt f v)
            (\<lambda>_. bindS (if \<not> is_empty_value v then Field_deserialize rt f output
                         else returnS output)
               (\<lambda>output'. Field__validate rt f output')))"

text \<open>\<open>setattr(owner, name, v)\<close> and \<open>fields.update({name: self})\<close>\<close>

definition set_attr :: "string \<Rightarrow> 'a \<Rightarrow> (string \<times> 'a) list \<Rightarrow> (string \<times> 'a) list" where
  "set_attr k v kvs =
     (if k \<in> fst ` set kvs then map (\<lambda>p. if fst p = k then (k, v) else p) kvs
      else kvs @ [(k, v)])"

text \<open>
  \<open>Field.__set__(owner, value)\<close>: the result, the state of the declaration and the
  instance, all three also when an exception leaves the method. The declaration keeps a
  reference to the instance, so its \<open>owner\<close> is the instance as it is in the end.
\<close>

definition Field_set ::
  "runtime \<Rightarrow> field \<Rightarrow> owner \<Rightarrow> pyval \<Rightarrow> fstate \<Rightarrow> (exn + unit) \<times> fstate \<times> owner" where
  "Field_set rt f ow v st =
     (let st1 = st\<lparr>errors := ErrDefaultDict, owner := Some ow, original_value := v\<rparr>
      in case Field__deserialize rt f v st1 of
           (Inl e, st2) \<Rightarrow> (Inl e, st2, ow)
         | (Inr out, st2) \<Rightarrow>
             (let ow1 = ow\<lparr>attrs := set_attr (private_name f) out (attrs ow)\<rparr>
              in case fields_attr ow1 of
                   None \<Rightarrow> (Inl AttributeError, st2\<lparr>owner := Some ow1\<rparr>, ow1)
                 | Some fs \<Rightarrow>
                     (let registry =
                            (case fs of
                               None \<Rightarrow> [(attr_name f, f)]
                             | Some d \<Rightarrow> if d \<noteq> [] then set_attr (attr_name f) f d
                                         else [(attr_name f, f)]);
                          ow2 = ow1\<lparr>fields_attr := Some (Some registry)\<rparr>
                      in (Inr (), st2\<lparr>owner := Some ow2\<rparr>, ow2))))"

text \<open>\<open>Field.__get__(obj, obj_type)\<close>\<close>

definition Field_get :: "field \<Rightarrow> owner \<Rightarrow> exn + pyval" where
  "Field_get f ow =
     (case map_of (attrs ow) (private_name f) of
        None \<Rightarrow> Inl AttributeError
      | Some v \<Rightarrow> Inr (if v = PNone then default_value f else v))"

section \<open>Declarations and instances used as examples\<close>

text \<open>
  A runtime whose library functions refuse everything they are asked (no example below
  comes to ask them), a record instance of row 3 whose class sets \<open>fields\<close> to \<open>None\<close>, and a
  declaration of each kind with the defaults of \<open>__init__\<close>.
\<close>

definition example_runtime :: runtime where
  "example_runtime =
     \<lparr>float_of_str = (\<lambda>s. None), float_of_int = (\<lambda>i. Inr (FFin (of_int i))),
      str_other = (\<lambda>v. []), lt_other = (\<lambda>a b. Inl TypeError),
      parsedate_to_datetime = (\<lambda>v. Inl TypeError), strptime = (\<lambda>v s. Inl TypeError)\<rparr>"

definition example_owner :: owner where
  "example_owner = \<lparr>row_number = Some (PInt 3), fields_attr = Some None, attrs = []\<rparr>"

definition example_field :: "kind \<Rightarrow> string \<Rightarrow> field" where
  "example_field k name =
     \<lparr>kind = k, attr_name = name, verbose_name = name, required = True,
      default_value = PNone, convert_to_none_strings = [], validators = [], preprocessors = [],
      error_messages = [], min_value = PNone, max_value = PNone, min_len = PNone,
      max_len = PNone, places = None, places_limit = None, rounding = None, format = None,
      enumeration = []\<rparr>"

text \<open>The state of a declaration that was bound to the example instance by hand.\<close>

definition bound_state :: fstate where
  "bound_state = init_state\<lparr>owner := Some example_owner\<rparr>"

text \<open>A decimal field that is not required and allows two places.\<close>

definition limited_decimal :: field where
  "limited_decimal =
     (example_field DecimalField ''price'')\<lparr>places_limit := Some 2, required := False\<rparr>"

text \<open>Integer fields with a maximum only, with a range, and with the bounds the wrong way round.\<close>

definition max_only_int :: field where
  "max_only_int = (example_field IntField ''age'')\<lparr>max_value := PInt 10\<rparr>"

definition range_int :: field where
  "range_int = (example_field IntField ''age'')\<lparr>min_value := PInt 0, max_value := PInt 10\<rparr>"

definition crossed_int :: field where
  "crossed_int = (example_field IntField ''age'')\<lparr>min_value := PInt 20, max_value := PInt 10\<rparr>"

text \<open>A decimal field quantized to \<open>Decimal("0.01")\<close> with \<open>ROUND_HALF_UP\<close>.\<close>

definition quantized_decimal :: field where
  "quantized_decimal =
     (example_field DecimalField ''price'')
       \<lparr>places := Some (DFin False 1 (- 2)), rounding := Some ROUND_HALF_UP\<rparr>"


text \<open>An integer field that is not required.\<close>

definition optional_int :: field where
  "optional_int = (example_field IntField ''age'')\<lparr>required := False\<rparr>"

section \<open>Auxiliary notions for the proofs about the fields\<close>

text \<open>The text \<open>MISSING_ERROR_MESSAGE\<close> gives for a class and a key.\<close>

definition missing_message :: "kind \<Rightarrow> string \<Rightarrow> string" where
  "missing_message k key =
     ''ValidationError raised by `'' @ class_name k @ ''`, but error key `'' @ key
     @ ''` does not exist in the `error_messages` dictionary.''"


text \<open>A field that can record: it is bound to an instance with a row number and holds a list.\<close>

definition can_record :: "fstate \<Rightarrow> bool" where
  "can_record st =
     (case owner st of
        None \<Rightarrow> False
      | Some ow \<Rightarrow> row_number ow \<noteq> None \<and> (case errors st of ErrList xs \<Rightarrow> True | _ \<Rightarrow> False))"

text \<open>The state after one more message was recorded.\<close>

definition with_error :: "pyval \<Rightarrow> fstate \<Rightarrow> fstate" where
  "with_error msg st =
     st\<lparr>errors := (case errors st of ErrList xs \<Rightarrow> ErrList (xs @ [msg]) | e \<Rightarrow> e),
        is_error := True\<rparr>"

text \<open>
  A run of assignments on one instance, each to a declaration with a value. The state of a
  declaration is found under its attribute name. An assignment that raises leaves the
  instance and the declaration as the exception found them, and the caller goes on with the
  next one. The result lists the declarations whose assignment returned, in order.
\<close>

fun assign_all ::
  "runtime \<Rightarrow> (field \<times> pyval) list \<Rightarrow> owner \<Rightarrow> (string \<Rightarrow> fstate)
     \<Rightarrow> owner \<times> (string \<Rightarrow> fstate) \<times> field list" where
  "assign_all rt [] ow sts = (ow, sts, [])"
| "assign_all rt (a # as) ow sts =
     (case Field_set rt (fst a) ow (snd a) (sts (attr_name (fst a))) of
        (r, st', ow') \<Rightarrow>
          (case assign_all rt as ow' (sts(attr_name (fst a) := st')) of
             (ow'', sts'', done) \<Rightarrow>
               (ow'', sts'', (case r of Inl e \<Rightarrow> [] | Inr u \<Rightarrow> [fst a]) @ done)))"

text \<open>The mapping a value of the attribute \<open>fields\<close> stands for.\<close>

definition registry_of :: "(string \<times> field) list option \<Rightarrow> (string \<Rightarrow> field option)" where
  "registry_of fs = (case fs of None \<Rightarrow> Map.empty | Some d \<Rightarrow> map_of d)"

text \<open>The entries that a list of declarations makes, a later one replacing an earlier one.\<close>

definition entries_of :: "field list \<Rightarrow> (string \<Rightarrow> field option)" where
  "entries_of fs = map_of (rev (map (\<lambda>f. (attr_name f, f)) fs))"

text \<open>An effect that leaves a given state as it is, whether it returns or raises.\<close>

definition leaves :: "fstate \<Rightarrow> 'a effect \<Rightarrow> bool" where
  "leaves st m = (snd (m st) = st)"

section \<open>Properties of the ISO-8601 parser\<close>



lemma run_suffix: "run r s g s' g' \<Longrightarrow> \<exists>t. s = t @ s'"
  by (induction rule: run.induct) auto

lemma run_take: "run r s g s' g' \<Longrightarrow> s = take (length s - length s') s @ s'"
  by (drule run_suffix) auto






















lemmas iso_eval = re_match_def iso8601_datetime_re_def d12_def tz_rx_def is_digit_def
  from_iso_datetime_def grp_def resolve_tz_def build_datetime_def kw_int_def int_of_def
  int_of_str_def strip_def is_space_def unsigned_value_def digit_val_def mk_datetime_def
  days_in_month_def is_leap_def dflt0_def tz_offset_def last2_def slice13_def
  get_fixed_timezone_def pad2_def show_nat.simps digit_char_def ljust6_def Let_def




section \<open>Basic facts about methods and the pipeline\<close>

lemma bindS_Inr [simp]: "m st = (Inr a, st') \<Longrightarrow> bindS m k st = k a st'"
  by (simp add: bindS_def)

lemma bindS_Inl [simp]: "m st = (Inl e, st') \<Longrightarrow> bindS m k st = (Inl e, st')"
  by (simp add: bindS_def)

lemma bindS_returnS [simp]: "bindS (returnS a) k st = k a st"
  by (simp add: bindS_def returnS_def)

lemma bindS_raiseS [simp]: "bindS (raiseS e) k st = (Inl e, st)"
  by (simp add: bindS_def raiseS_def)

lemma bindS_liftS_Inr [simp]: "bindS (liftS (Inr a)) k st = k a st"
  by (simp add: bindS_def liftS_def)

lemma bindS_liftS_Inl [simp]: "bindS (liftS (Inl e)) k st = (Inl e, st)"
  by (simp add: bindS_def liftS_def)

lemma returnS_apply [simp]: "returnS a st = (Inr a, st)"
  by (simp add: returnS_def)

lemma raiseS_apply [simp]: "raiseS e st = (Inl e, st)"
  by (simp add: raiseS_def)

lemma not_empty_not_None: "\<not> is_empty_value v \<Longrightarrow> v \<noteq> PNone"
  by (auto simp: is_empty_value_def EMPTY_VALUES_def)

lemma run_preprocessors_none [simp]:
  "preprocessors f = [] \<Longrightarrow> Field_run_preprocessors rt f v st = (Inr v, st)"
  by (simp add: Field_run_preprocessors_def)

lemma Field_set_deserialize_raises:
  assumes "preprocessors f = []" "\<not> is_empty_value v"
    and "Field_deserialize rt f (pre_process_value rt f v)
           (st\<lparr>errors := ErrDefaultDict, owner := Some ow, original_value := v\<rparr>) = (Inl e, st')"
  shows "Field_set rt f ow v st = (Inl e, st', ow)"
  using assms
  by (simp add: Field_set_def Field__deserialize_def Field_validate_required_def
      not_empty_not_None Let_def)


text \<open>The definitions that evaluate an assignment on given values.\<close>

lemmas field_eval = Field_set_def Field__deserialize_def Field__validate_def
  Field_validate_def Field_deserialize_def Field_run_validators_def Field_run_preprocessors_def
  Field_validate_required_def Field_make_error_def format_error_def errors_append_def
  resolved_messages_def Field_default_error_messages_def DateTime_default_error_messages_def
  MISSING_ERROR_MESSAGE_def REQUIRED_message_def INCORRECT_FORMAT_message_def class_name_def
  set_item_def set_attr_def private_name_def
  NumberField_validate_def IntField_deserialize_def FloatField_deserialize_def
  StrField_validate_def StrField_deserialize_def length_violated_def
  DecimalField_validate_def DecimalField_validate_place_def DecimalField_deserialize_def
  abs_exponent_def quantized_def out_of_range_def
  DateTime_deserialize_def parse_attempt_def data_format_of_def DEFAULT_FORMAT_def
  caught_by_DateTime_def from_iso_datetime_value_def
  py_int_def py_lt_def py_gt_def is_number_def num_of_def is_decimal_def same_kind_def
  int_of_def int_of_str_def unsigned_value_def digit_val_def is_digit_def
  pre_process_value_def none_strings_def default_convert_to_none_strings_def strip_def
  is_space_def lower_def lower_char_def py_str_def is_empty_value_def EMPTY_VALUES_def
  example_field_def example_owner_def example_runtime_def bound_state_def init_state_def
  bindS_def returnS_def raiseS_def liftS_def Let_def


section \<open>Recording an error\<close>

lemma format_text_plain:
  "CHR ''{'' \<notin> set s \<Longrightarrow> CHR ''}'' \<notin> set s \<Longrightarrow> format_text rt kw s = Inr s"
  by (induction s) auto

lemma format_missing:
  "format_text rt [(''class_name'', PStr cn), (''key'', PStr key)] MISSING_ERROR_MESSAGE =
     Inr (''ValidationError raised by `'' @ cn @ ''`, but error key `'' @ key
          @ ''` does not exist in the `error_messages` dictionary.'')"
  by (simp add: MISSING_ERROR_MESSAGE_def py_str_def)

lemma missing_message_plain:
  "CHR ''{'' \<notin> set (missing_message k ''incorrect_format'')
   \<and> CHR ''}'' \<notin> set (missing_message k ''incorrect_format'')"
  by (cases k) (simp_all add: missing_message_def class_name_def)

lemma resolved_incorrect_format:
  "map_of (error_messages f) ''incorrect_format'' = None \<Longrightarrow>
   map_of (resolved_messages f) ''incorrect_format'' = None"
  by (simp add: resolved_messages_def map_add_def[symmetric] Field_default_error_messages_def
      DateTime_default_error_messages_def map_of_append split: option.splits)

lemma make_error_incorrect_format:
  assumes "owner st = Some ow" "row_number ow = Some rn"
    and "map_of (error_messages f) ''incorrect_format'' = None"
  shows "Field_make_error rt f ''incorrect_format'' kw st =
     bindS (errors_append (PStr (missing_message (kind f) ''incorrect_format'')))
       (\<lambda>_ st'. (Inr (), st'\<lparr>is_error := True\<rparr>)) st"
proof -
  have "format_text rt (set_item ''field'' (PStr (verbose_name f)) (set_item ''row_number'' rn kw))
          (missing_message (kind f) ''incorrect_format'')
        = Inr (missing_message (kind f) ''incorrect_format'')"
    using missing_message_plain by (intro format_text_plain) auto
  then show ?thesis
    using assms
    by (simp add: Field_make_error_def resolved_incorrect_format format_missing
        missing_message_def Let_def)
qed

lemma format_error_records:
  assumes "owner st = Some ow" "row_number ow = Some rn" "errors st = ErrList xs"
    and "map_of (error_messages f) ''incorrect_format'' = None"
  shows "format_error rt f st =
     (Inr (), with_error (PStr (missing_message (kind f) ''incorrect_format'')) st)"
  using assms
  by (simp add: format_error_def make_error_incorrect_format errors_append_def bindS_def
      with_error_def)

lemma format_error_defaultdict:
  assumes "owner st = Some ow" "row_number ow = Some rn" "errors st = ErrDefaultDict"
    and "map_of (error_messages f) ''incorrect_format'' = None"
  shows "format_error rt f st = (Inl AttributeError, st)"
  using assms
  by (simp add: format_error_def make_error_incorrect_format errors_append_def bindS_def)

lemma make_error_never_returns_defaultdict:
  assumes "errors st = ErrDefaultDict"
  shows "\<exists>e. Field_make_error rt f key kw st = (Inl e, st)"
  using assms
  by (auto simp: Field_make_error_def errors_append_def bindS_def Let_def
      split: option.splits sum.splits pyval.splits)

lemma make_error_state:
  "Field_make_error rt f key kw st = (r, st') \<Longrightarrow>
   st' = st \<or> (\<exists>msg xs. errors st = ErrList xs \<and> r = Inr () \<and> st' = with_error msg st)"
  by (auto simp: Field_make_error_def errors_append_def bindS_def Let_def with_error_def
      split: option.splits sum.splits pyval.splits errs.splits)


section \<open>The number fields catch a \<open>ValueError\<close> only\<close>







lemmas example_defs = example_field_def example_owner_def example_runtime_def
  bound_state_def init_state_def

lemmas preprocess_eval = pre_process_value_def none_strings_def
  default_convert_to_none_strings_def strip_def is_space_def lower_def lower_char_def
  py_str_def is_empty_value_def EMPTY_VALUES_def


section \<open>A decimal field with places cannot validate \<open>None\<close>\<close>






section \<open>The registry of an instance\<close>

lemma map_of_replace:
  "map_of (map (\<lambda>p. if fst p = k then (k, v) else p) kvs) x =
     (if x = k \<and> k \<in> fst ` set kvs then Some v else map_of kvs x)"
proof (induction kvs)
  case Nil
  then show ?case by simp
next
  case (Cons p kvs)
  have "(k, b) \<in> set kvs \<Longrightarrow> k \<in> fst ` set kvs" for b
    by force
  with Cons show ?case by (cases p) auto
qed

lemma map_of_set_attr: "map_of (set_attr k v kvs) = (map_of kvs)(k \<mapsto> v)"
proof (cases "k \<in> fst ` set kvs")
  case True
  then show ?thesis
    by (auto simp: set_attr_def map_of_replace fun_eq_iff)
next
  case False
  then have "map_of kvs k = None"
    by (simp add: map_of_eq_None_iff)
  then show ?thesis
    using False by (auto simp: set_attr_def map_add_def fun_eq_iff split: option.splits)
qed

lemma set_attr_nonempty: "set_attr k v kvs \<noteq> []"
  by (cases kvs) (auto simp: set_attr_def)

text \<open>One assignment: the attribute \<open>fields\<close> stays as it is or gains the entry.\<close>

lemma Field_set_registry:
  assumes "Field_set rt f ow v st = (r, st', ow')" "fields_attr ow = Some fs"
  shows "(case r of
            Inl e \<Rightarrow> fields_attr ow' = Some fs
          | Inr u \<Rightarrow> \<exists>reg. reg \<noteq> [] \<and> fields_attr ow' = Some (Some reg) \<and>
                     map_of reg = (registry_of fs)(attr_name f \<mapsto> f))"
proof (cases "Field__deserialize rt f v
                (st\<lparr>errors := ErrDefaultDict, owner := Some ow, original_value := v\<rparr>)")
  case (Pair x st2)
  show ?thesis
  proof (cases x)
    case (Inl e)
    with Pair assms show ?thesis by (auto simp: Field_set_def Let_def)
  next
    case (Inr out)
    show ?thesis
    proof (cases fs)
      case None
      with Inr Pair assms show ?thesis
        by (auto simp: Field_set_def Let_def registry_of_def)
    next
      case (Some d)
      show ?thesis
      proof (cases "d = []")
        case True
        with Some Inr Pair assms show ?thesis
          by (auto simp: Field_set_def Let_def registry_of_def)
      next
        case False
        with Some Inr Pair assms show ?thesis
          by (auto simp: Field_set_def Let_def registry_of_def map_of_set_attr set_attr_nonempty)
      qed
    qed
  qed
qed

lemma entries_of_Cons: "entries_of (f # fs) = [attr_name f \<mapsto> f] ++ entries_of fs"
  by (simp add: entries_of_def map_of_append fun_eq_iff map_add_def split: option.splits)

lemma entries_of_Nil: "entries_of [] = Map.empty"
  by (simp add: entries_of_def)

lemma dom_entries_of: "dom (entries_of fs) = attr_name ` set fs"
  by (auto simp: entries_of_def dom_map_of_conv_image_fst image_iff)

lemma assign_all_registry:
  assumes "assign_all rt as ow sts = (ow', sts', done)" "fields_attr ow = Some fs"
  shows "if done = [] then fields_attr ow' = Some fs
         else \<exists>reg. reg \<noteq> [] \<and> fields_attr ow' = Some (Some reg) \<and>
                map_of reg = registry_of fs ++ entries_of done"
  using assms
proof (induction as arbitrary: ow sts fs "done" ow' sts')
  case Nil
  then show ?case by simp
next
  case (Cons a as)
  obtain r st1 ow1 where s: "Field_set rt (fst a) ow (snd a) (sts (attr_name (fst a))) = (r, st1, ow1)"
    by (cases "Field_set rt (fst a) ow (snd a) (sts (attr_name (fst a)))") auto
  obtain ow2 sts2 done2 where
    t: "assign_all rt as ow1 (sts(attr_name (fst a) := st1)) = (ow2, sts2, done2)"
    by (cases "assign_all rt as ow1 (sts(attr_name (fst a) := st1))") auto
  from Cons.prems(1) s t have ow': "ow' = ow2"
    and d: "done = (case r of Inl e \<Rightarrow> [] | Inr u \<Rightarrow> [fst a]) @ done2" by auto
  note one = Field_set_registry[OF s Cons.prems(2)]
  show ?case
  proof (cases r)
    case (Inl e)
    with one have 1: "fields_attr ow1 = Some fs" by simp
    from Inl d have "done = done2" by simp
    with Cons.IH[OF t 1] ow' show ?thesis by simp
  next
    case (Inr u)
    with one obtain reg where reg: "reg \<noteq> []" "fields_attr ow1 = Some (Some reg)"
      "map_of reg = (registry_of fs)(attr_name (fst a) \<mapsto> fst a)" by auto
    from Inr d have dd: "done = fst a # done2" by simp
    have m: "(registry_of fs)(attr_name (fst a) \<mapsto> fst a) ++ entries_of done2
             = registry_of fs ++ entries_of (fst a # done2)"
      by (auto simp: entries_of_Cons fun_eq_iff map_add_def split: option.splits)
    show ?thesis
    proof (cases "done2 = []")
      case True
      with Cons.IH[OF t reg(2)] reg dd ow' m show ?thesis
        by (auto simp: entries_of_Nil)
    next
      case False
      with Cons.IH[OF t reg(2)] obtain reg2 where "reg2 \<noteq> []"
        "fields_attr ow2 = Some (Some reg2)"
        "map_of reg2 = registry_of (Some reg) ++ entries_of done2" by auto
      with reg dd ow' m show ?thesis
        by (auto simp: registry_of_def)
    qed
  qed
qed

text \<open>
  Claim C8. On an instance whose attribute \<open>fields\<close> is \<open>None\<close> or an empty mapping (it must
  exist: \<open>__set__\<close> reads it), the first assignment that returns creates the registry with
  the one entry from the attribute name to the declaration; an assignment that finds a
  registry with entries adds its own entry or replaces it. After any run of assignments the
  registry is untouched when none of them returned, and otherwise holds exactly the
  attribute names of the assignments that returned, each with the declaration assigned
  last under it. An assignment that raises does so before it comes to the registry.
\<close>

theorem registry_built_by_assignment:
  "fields_attr ow = Some None \<or> fields_attr ow = Some (Some []) \<longrightarrow>
     (Field_set rt f ow v st = (Inr (), st1, ow1) \<longrightarrow>
        fields_attr ow1 = Some (Some [(attr_name f, f)]))
     \<and> (fields_attr ow2 = Some (Some reg2) \<and> reg2 \<noteq> [] \<and>
        Field_set rt f ow2 v st = (Inr (), st3, ow3) \<longrightarrow>
        fields_attr ow3 = Some (Some (set_attr (attr_name f) f reg2)))
     \<and> (assign_all rt as ow sts = (ow', sts', done) \<longrightarrow>
        (if done = [] then fields_attr ow' = fields_attr ow
         else \<exists>reg. fields_attr ow' = Some (Some reg) \<and> map_of reg = entries_of done \<and>
                fst ` set reg = attr_name ` set done))"
proof (intro impI conjI)
  assume h: "fields_attr ow = Some None \<or> fields_attr ow = Some (Some [])"
  assume s: "Field_set rt f ow v st = (Inr (), st1, ow1)"
  from h s show "fields_attr ow1 = Some (Some [(attr_name f, f)])"
    by (auto simp: Field_set_def Let_def split: prod.splits sum.splits)
next
  assume "fields_attr ow2 = Some (Some reg2) \<and> reg2 \<noteq> [] \<and>
        Field_set rt f ow2 v st = (Inr (), st3, ow3)"
  then show "fields_attr ow3 = Some (Some (set_attr (attr_name f) f reg2))"
    by (auto simp: Field_set_def Let_def split: prod.splits sum.splits)
next
  assume h: "fields_attr ow = Some None \<or> fields_attr ow = Some (Some [])"
  assume a: "assign_all rt as ow sts = (ow', sts', done)"
  from h obtain fs where fs: "fields_attr ow = Some fs" "registry_of fs = Map.empty"
    by (auto simp: registry_of_def)
  from assign_all_registry[OF a fs(1)] fs
  have r: "if done = [] then fields_attr ow' = fields_attr ow
        else \<exists>reg. fields_attr ow' = Some (Some reg) \<and> map_of reg = entries_of done"
    by auto
  show "if done = [] then fields_attr ow' = fields_attr ow
         else \<exists>reg. fields_attr ow' = Some (Some reg) \<and> map_of reg = entries_of done \<and>
                fst ` set reg = attr_name ` set done"
  proof (cases "done = []")
    case True
    with r show ?thesis by simp
  next
    case False
    with r obtain reg where reg: "fields_attr ow' = Some (Some reg)"
      "map_of reg = entries_of done" by auto
    have "fst ` set reg = dom (map_of reg)"
      by (simp add: dom_map_of_conv_image_fst)
    also have "\<dots> = attr_name ` set done"
      by (simp add: reg(2) dom_entries_of)
    finally show ?thesis using False reg by auto
  qed
qed

theorem registry_built_by_assignment_witness:
  "fields_attr example_owner = Some None
   \<and> (case assign_all example_runtime
            [(example_field IntField ''age'', PStr ''42''),
             (example_field StrField ''name'', PStr ''Bob''),
             (example_field IntField ''age'', PStr ''abc'')]
            example_owner (\<lambda>n. init_state) of
         (ow', sts', done) \<Rightarrow>
           map attr_name done = [''age'', ''name''] \<and>
           (\<exists>reg. fields_attr ow' = Some (Some reg) \<and> fst ` set reg = {''age'', ''name''}))"
proof -
  let ?as = "[(example_field IntField ''age'', PStr ''42''),
             (example_field StrField ''name'', PStr ''Bob''),
             (example_field IntField ''age'', PStr ''abc'')]"
  have h: "fields_attr example_owner = Some None"
    by (simp add: example_owner_def)
  obtain ow' sts' "done" where
    a: "assign_all example_runtime ?as example_owner (\<lambda>n. init_state) = (ow', sts', done)"
    by (cases "assign_all example_runtime ?as example_owner (\<lambda>n. init_state)") auto
  have "snd (snd (assign_all example_runtime ?as example_owner (\<lambda>n. init_state)))
        = [example_field IntField ''age'', example_field StrField ''name'']"
    by (simp add: field_eval)
  with a have d: "done = [example_field IntField ''age'', example_field StrField ''name'']"
    by simp
  then have n: "map attr_name done = [''age'', ''name'']"
    by (simp add: example_field_def)
  from registry_built_by_assignment[THEN mp, OF disjI1, OF h,
      THEN conjunct2, THEN conjunct2, THEN mp, OF a] d
  obtain reg where "fields_attr ow' = Some (Some reg)" "fst ` set reg = attr_name ` set done"
    by auto
  with d have "\<exists>reg. fields_attr ow' = Some (Some reg) \<and> fst ` set reg = {''age'', ''name''}"
    by (auto simp: example_field_def)
  with a n h show ?thesis by simp
qed

section \<open>A field that holds the \<open>defaultdict\<close> records nothing\<close>

lemma leaves_returnS [intro!]: "leaves st (returnS a)"
  by (simp add: leaves_def)

lemma leaves_Pair [intro!, simp]: "leaves st (Pair r)"
  by (simp add: leaves_def)

lemma leaves_raiseS [intro!]: "leaves st (raiseS e)"
  by (simp add: leaves_def)

lemma leaves_liftS [intro!]: "leaves st (liftS r)"
  by (simp add: leaves_def liftS_def)

lemma leaves_bindS [intro!]:
  assumes "leaves st m" "\<And>a. leaves st (k a)"
  shows "leaves st (bindS m k)"
proof (cases "m st")
  case (Pair r st')
  with assms(1) have "st' = st" by (simp add: leaves_def)
  with Pair assms(2) show ?thesis
    by (cases r) (simp_all add: leaves_def bindS_def)
qed

lemma leaves_if [intro!]: "leaves st m \<Longrightarrow> leaves st n \<Longrightarrow> leaves st (if b then m else n)"
  by simp

lemma leaves_make_error [intro!]:
  "errors st = ErrDefaultDict \<Longrightarrow> leaves st (Field_make_error rt f key kw)"
  using make_error_never_returns_defaultdict[of st rt f key kw]
  by (auto simp: leaves_def)

lemma leaves_format_error [intro!]:
  "errors st = ErrDefaultDict \<Longrightarrow> leaves st (format_error rt f)"
  using make_error_never_returns_defaultdict[of st rt f "''incorrect_format''"
      "[(''value'', original_value st)]"]
  by (auto simp: leaves_def format_error_def)

lemma leaves_apply_preprocessors:
  "errors st = ErrDefaultDict \<Longrightarrow> leaves st (apply_preprocessors rt f orig ps v)"
proof (induction ps arbitrary: v)
  case Nil
  then show ?case by auto
next
  case (Cons p ps)
  show ?case
  proof (cases "p v")
    case (Inl e)
    with Cons.prems show ?thesis by (cases e) auto
  next
    case (Inr v')
    with Cons show ?thesis by simp
  qed
qed

lemma leaves_run_preprocessors:
  "errors st = ErrDefaultDict \<Longrightarrow> leaves st (Field_run_preprocessors rt f v)"
  by (auto simp: Field_run_preprocessors_def leaves_apply_preprocessors)

lemma leaves_validate_required:
  "errors st = ErrDefaultDict \<Longrightarrow> leaves st (Field_validate_required rt f v)"
  by (auto simp: Field_validate_required_def)

lemma leaves_apply_validators:
  "errors st = ErrDefaultDict \<Longrightarrow> leaves st (apply_validators rt f cs v)"
proof (induction cs)
  case Nil
  then show ?case by auto
next
  case (Cons c cs)
  show ?case
  proof (cases "c v")
    case (Inl e)
    have "leaves st (bindS (Field_make_error rt f ''incorrect_format''
                          [(''value'', original_value st)])
                   (\<lambda>_. apply_validators rt f cs v))"
      using Cons by auto
    then have "leaves st (\<lambda>s. bindS (Field_make_error rt f ''incorrect_format''
                          [(''value'', original_value s)])
                   (\<lambda>_. apply_validators rt f cs v) s)"
      by (simp add: leaves_def)
    with Inl Cons.prems show ?thesis by (cases e) auto
  next
    case (Inr u)
    with Cons show ?thesis by simp
  qed
qed

lemma leaves_run_validators:
  "errors st = ErrDefaultDict \<Longrightarrow> leaves st (Field_run_validators rt f v)"
  by (auto simp: Field_run_validators_def leaves_apply_validators)

lemma leaves_deserialize:
  assumes "errors st = ErrDefaultDict"
  shows "leaves st (Field_deserialize rt f v)"
proof (cases "kind f")
  case IntField
  with assms show ?thesis
    by (auto simp: Field_deserialize_def IntField_deserialize_def split: sum.splits exn.splits)
next
  case FloatField
  with assms show ?thesis
    by (auto simp: Field_deserialize_def FloatField_deserialize_def split: sum.splits exn.splits)
next
  case StrField
  with assms show ?thesis
    by (auto simp: Field_deserialize_def StrField_deserialize_def)
next
  case DecimalField
  with assms show ?thesis
    by (auto simp: Field_deserialize_def DecimalField_deserialize_def split: option.splits)
next
  case DateTime
  with assms show ?thesis
    by (auto simp: Field_deserialize_def DateTime_deserialize_def split: sum.splits)
next
  case BooleanField
  have l: "leaves st (boolean_lookup rt f v)"
    using assms by (auto simp: boolean_lookup_def)
  have "leaves st (BooleanField_deserialize rt f v)"
  proof (cases "boolean_lookup rt f v st")
    case (Pair r st')
    with l have s: "st' = st" by (simp add: leaves_def)
    have fe: "snd (format_error rt f st) = st"
      using leaves_format_error[OF assms] by (simp add: leaves_def)
    show ?thesis
    proof (cases r)
      case (Inl e)
      with Pair s fe show ?thesis
        by (cases e; cases "format_error rt f st")
           (auto simp: leaves_def BooleanField_deserialize_def bindS_def split: sum.splits)
    next
      case (Inr b)
      with Pair s show ?thesis
        by (auto simp: leaves_def BooleanField_deserialize_def)
    qed
  qed
  with BooleanField show ?thesis by (simp add: Field_deserialize_def)
next
  case EnumField
  with assms show ?thesis
    by (auto simp: Field_deserialize_def EnumField_deserialize_def
        split: pyval.splits option.splits)
qed

lemma leaves_validate:
  assumes "errors st = ErrDefaultDict"
  shows "leaves st (Field_validate rt f v)"
proof -
  have n: "leaves st (NumberField_validate rt f v)"
    using assms by (auto simp: NumberField_validate_def)
  have s: "leaves st (StrField_validate rt f v)"
    using assms by (auto simp: StrField_validate_def split: sum.splits exn.splits bool.splits)
  have p: "leaves st (DecimalField_validate_place rt f v)"
    using assms
    by (auto simp: DecimalField_validate_place_def split: option.splits sum.splits pyval.splits)
  have d: "leaves st (DecimalField_validate rt f v)"
    using assms p by (auto simp: DecimalField_validate_def)
  from n s d show ?thesis
    by (cases "kind f") (auto simp: Field_validate_def)
qed

lemma leaves__deserialize:
  assumes "errors st = ErrDefaultDict"
  shows "leaves st (Field__deserialize rt f v)"
  using assms
  by (auto simp: Field__deserialize_def Field__validate_def leaves_run_preprocessors
      leaves_validate_required leaves_deserialize leaves_validate leaves_run_validators)

text \<open>What an assignment leaves in the declaration, whatever the value and the outcome.\<close>

lemma Field_set_state:
  "errors (fst (snd (Field_set rt f ow v st))) = ErrDefaultDict
   \<and> is_error (fst (snd (Field_set rt f ow v st))) = is_error st
   \<and> original_value (fst (snd (Field_set rt f ow v st))) = v"
proof -
  let ?st1 = "st\<lparr>errors := ErrDefaultDict, owner := Some ow, original_value := v\<rparr>"
  have "leaves ?st1 (Field__deserialize rt f v)"
    by (rule leaves__deserialize) simp
  then obtain r where "Field__deserialize rt f v ?st1 = (r, ?st1)"
    by (cases "Field__deserialize rt f v ?st1") (auto simp: leaves_def)
  then show ?thesis
    by (cases r) (auto simp: Field_set_def Let_def split: option.splits)
qed

section \<open>The range check of the number fields\<close>

text \<open>
  The two checks of \<open>NumberField.validate\<close> on numbers that are not NaN, for a field that can
  record and has no message of its own for the key: the first compares the value with the
  minimum; the second runs when a maximum is set, and compares with the minimum again.
\<close>

lemma NumberField_validate_numbers:
  assumes "can_record st" "map_of (error_messages f) ''incorrect_format'' = None"
    and "is_number v" "num_of v = Some x" "is_number (min_value f)" "num_of (min_value f) = Some y"
  shows "NumberField_validate rt f v st =
     (if ext_lt x y \<or> (max_value f \<noteq> PNone \<and> ext_lt y x)
      then (Inr PNone, with_error (PStr (missing_message (kind f) ''incorrect_format'')) st)
      else (Inr v, st))"
proof -
  from assms(1) obtain ow rn xs where o: "owner st = Some ow" "row_number ow = Some rn"
    "errors st = ErrList xs"
    by (auto simp: can_record_def split: option.splits errs.splits)
  note fe = format_error_records[OF o assms(2)]
  have v: "v \<noteq> PNone" and m: "min_value f \<noteq> PNone"
    using assms(3,5) by (auto simp: is_number_def)
  have 1: "py_gt rt (min_value f) v = Inr (ext_lt x y)"
    using assms by (simp add: py_gt_def py_lt_def)
  have 2: "py_lt rt (min_value f) v = Inr (ext_lt y x)"
    using assms by (simp add: py_lt_def)
  show ?thesis
    using v m 1 2 fe by (simp add: NumberField_validate_def)
qed

text \<open>
  Claim C4. With a maximum of 10 and no minimum, the value 15 makes the range check raise
  \<open>TypeError\<close> (it compares with the minimum, \<open>None\<close>) and nothing is recorded. With the
  range 0 to 10, the value \<open>-1\<close> is recorded and becomes \<open>None\<close>, and so is the value 5, which
  is within the range but above the minimum. With a minimum of 20 and a maximum of 10, the
  value 20 passes, though it exceeds the maximum.
\<close>

theorem NumberField_validate_compares_with_minimum:
  "NumberField_validate example_runtime max_only_int (PInt 15) bound_state
     = (Inl TypeError, bound_state)
   \<and> NumberField_validate example_runtime range_int (PInt (- 1)) bound_state
     = (Inr PNone, with_error (PStr (missing_message IntField ''incorrect_format'')) bound_state)
   \<and> NumberField_validate example_runtime range_int (PInt 5) bound_state
     = (Inr PNone, with_error (PStr (missing_message IntField ''incorrect_format'')) bound_state)
   \<and> NumberField_validate example_runtime crossed_int (PInt 20) bound_state
     = (Inr (PInt 20), bound_state)"
proof -
  have c: "can_record bound_state"
    by (simp add: can_record_def example_defs)
  have 1: "NumberField_validate example_runtime max_only_int (PInt 15) bound_state
     = (Inl TypeError, bound_state)"
    by (simp add: NumberField_validate_def max_only_int_def example_field_def py_lt_def
        is_number_def same_kind_def)
  have 2: "NumberField_validate example_runtime range_int (PInt (- 1)) bound_state
     = (Inr PNone, with_error (PStr (missing_message IntField ''incorrect_format'')) bound_state)"
    using NumberField_validate_numbers[OF c, of range_int "PInt (- 1)" "Fin (- 1)" "Fin 0"
        example_runtime]
    by (simp add: range_int_def example_field_def is_number_def num_of_def)
  have 3: "NumberField_validate example_runtime range_int (PInt 5) bound_state
     = (Inr PNone, with_error (PStr (missing_message IntField ''incorrect_format'')) bound_state)"
    using NumberField_validate_numbers[OF c, of range_int "PInt 5" "Fin 5" "Fin 0"
        example_runtime]
    by (simp add: range_int_def example_field_def is_number_def num_of_def)
  have 4: "NumberField_validate example_runtime crossed_int (PInt 20) bound_state
     = (Inr (PInt 20), bound_state)"
    using NumberField_validate_numbers[OF c, of crossed_int "PInt 20" "Fin 20" "Fin 20"
        example_runtime]
    by (simp add: crossed_int_def example_field_def is_number_def num_of_def)
  show ?thesis
    by (rule conjI[OF 1 conjI[OF 2 conjI[OF 3 4]]])
qed

section \<open>The decimal field stores the value as parsed\<close>

lemmas decimal_eval = dec_of_str_def dec_number_def dec_special_def dec_exponent_def
  digits_nat_def all_digits_def quantize_def rescale_def round_away_def adjusted_def
  ctx_prec_def ctx_Emax_def ctx_Etiny_def is_finite_def show_nat.simps digit_char_def
  dec_string_def to_eng_string_def show_signed_def show_int_def dec_rat_def

text \<open>
  Claim C5. \<open>Decimal("1.005")\<close> quantized to \<open>Decimal("0.01")\<close> with \<open>ROUND_HALF_UP\<close> is
  \<open>1.01\<close>, but the assignment of \<open>"1.005"\<close> to a field so declared stores \<open>1.005\<close>, and that
  is what is read back: \<open>validate\<close> quantizes a local variable, and \<open>_validate\<close> returns the
  value it was given. With a places limit of 2, the value records one error when the field
  can record: the placeholder for the key \<open>incorrect_format\<close>, which has no template, and
  so no text of the value; in an assignment the recording raises \<open>AttributeError\<close>.
\<close>

theorem DecimalField_stores_unquantized:
  "dec_of_str ''1.005'' = Some (DFin False 1005 (- 3))
   \<and> quantize (DFin False 1005 (- 3)) (DFin False 1 (- 2)) (Some ROUND_HALF_UP)
       = Inr (DFin False 101 (- 2))
   \<and> fst (Field_set example_runtime quantized_decimal example_owner (PStr ''1.005'') init_state)
       = Inr ()
   \<and> Field_get quantized_decimal
        (snd (snd (Field_set example_runtime quantized_decimal example_owner (PStr ''1.005'')
                     init_state)))
       = Inr (PDec (DFin False 1005 (- 3)))
   \<and> to_eng_string (DFin False 1005 (- 3)) = ''1.005''
   \<and> Field__deserialize example_runtime limited_decimal (PStr ''1.005'') bound_state
       = (Inr (PDec (DFin False 1005 (- 3))),
          with_error (PStr (missing_message DecimalField ''incorrect_format'')) bound_state)
   \<and> fst (Field_set example_runtime limited_decimal example_owner (PStr ''1.005'') init_state)
       = Inl AttributeError"
proof -
  have 1: "dec_of_str ''1.005'' = Some (DFin False 1005 (- 3))"
    by (simp add: decimal_eval strip_def is_space_def is_digit_def digit_val_def Let_def)
  have 2: "quantize (DFin False 1005 (- 3)) (DFin False 1 (- 2)) (Some ROUND_HALF_UP)
       = Inr (DFin False 101 (- 2))"
    by (simp add: decimal_eval Let_def)
  have s: "Field_set example_runtime quantized_decimal example_owner (PStr ''1.005'') init_state
     = (Inr (),
        \<lparr>owner = Some \<lparr>row_number = Some (PInt 3),
            fields_attr = Some (Some [(''price'', quantized_decimal)]),
            attrs = [(''_price'', PDec (DFin False 1005 (- 3)))]\<rparr>,
         original_value = PStr ''1.005'', is_error = False, errors = ErrDefaultDict\<rparr>,
        \<lparr>row_number = Some (PInt 3),
            fields_attr = Some (Some [(''price'', quantized_decimal)]),
            attrs = [(''_price'', PDec (DFin False 1005 (- 3)))]\<rparr>)"
    by (simp add: field_eval quantized_decimal_def decimal_eval)
  have 3: "fst (Field_set example_runtime quantized_decimal example_owner (PStr ''1.005'')
      init_state) = Inr ()"
    by (simp add: s)
  have 4: "Field_get quantized_decimal
        (snd (snd (Field_set example_runtime quantized_decimal example_owner (PStr ''1.005'')
                     init_state)))
       = Inr (PDec (DFin False 1005 (- 3)))"
  proof -
    have "attr_name quantized_decimal = ''price''"
      by (simp add: quantized_decimal_def example_field_def)
    then show ?thesis
      by (simp add: s Field_get_def private_name_def)
  qed
  have 5: "to_eng_string (DFin False 1005 (- 3)) = ''1.005''"
    by (simp add: decimal_eval Let_def)
  have 6: "Field__deserialize example_runtime limited_decimal (PStr ''1.005'') bound_state
       = (Inr (PDec (DFin False 1005 (- 3))),
          with_error (PStr (missing_message DecimalField ''incorrect_format'')) bound_state)"
    by (simp add: field_eval limited_decimal_def decimal_eval with_error_def missing_message_def)
  have 7: "fst (Field_set example_runtime limited_decimal example_owner (PStr ''1.005'')
      init_state) = Inl AttributeError"
    by (simp add: field_eval limited_decimal_def decimal_eval)
  show ?thesis
    by (rule conjI[OF 1 conjI[OF 2 conjI[OF 3 conjI[OF 4 conjI[OF 5 conjI[OF 6 7]]]]]])
qed

section \<open>A date that does not parse\<close>

text \<open>
  When the parse raises an exception that the handler catches, \<open>DateTime.deserialize\<close> never
  returns, and what it raises is what \<open>_make_error\<close> raises or the \<open>TypeError\<close> of
  \<open>raise None\<close>.
\<close>

lemma DateTime_deserialize_raises:
  assumes "parse_attempt rt f v = Inl e" "caught_by_DateTime e"
  shows "\<exists>x st'. DateTime_deserialize rt f v st = (Inl x, st') \<and>
           (x = TypeError \<or>
            Field_make_error rt f ''invalid'' [(''input'', v), (''obj_type'', PStr ''datetime'')] st
              = (Inl x, st'))"
  using assms
  by (cases "Field_make_error rt f ''invalid'' [(''input'', v), (''obj_type'', PStr ''datetime'')] st")
     (auto simp: DateTime_deserialize_def bindS_def split: sum.splits)

text \<open>
  Claim C6. The string \<open>garbage\<close> does not match the ISO-8601 pattern. Assigned to a date
  field, it makes the assignment raise \<open>AttributeError\<close>, the one of \<open>self.errors.append\<close>,
  with nothing stored. Given to \<open>deserialize\<close> of a field that can record, it has the message
  \<open>Not a valid datetime.\<close> recorded and the flag set, and then raises the \<open>TypeError\<close> of
  \<open>raise None\<close>. Neither exception is an error of the kind \<open>invalid\<close>.
\<close>

theorem DateTime_invalid_raises_other_exception:
  "parse_attempt example_runtime (example_field DateTime ''when'') (PStr ''garbage'')
     = Inl (ValueError ''Not a valid ISO8601-formatted datetime string'')
   \<and> Field_set example_runtime (example_field DateTime ''when'') example_owner
       (PStr ''garbage'') init_state
     = (Inl AttributeError,
        init_state\<lparr>errors := ErrDefaultDict, owner := Some example_owner,
                     original_value := PStr ''garbage''\<rparr>,
        example_owner)
   \<and> DateTime_deserialize example_runtime (example_field DateTime ''when'') (PStr ''garbage'')
       bound_state
     = (Inl TypeError, with_error (PStr ''Not a valid datetime.'') bound_state)"
proof -
  have m: "re_match iso8601_datetime_re ''garbage'' = None"
    by (simp add: iso_eval)
  have 1: "parse_attempt example_runtime (example_field DateTime ''when'') (PStr ''garbage'')
     = Inl (ValueError ''Not a valid ISO8601-formatted datetime string'')"
    by (simp add: parse_attempt_def data_format_of_def DEFAULT_FORMAT_def example_field_def
        from_iso_datetime_value_def from_iso_datetime_def m)
  have 2: "DateTime_deserialize example_runtime (example_field DateTime ''when'')
       (PStr ''garbage'') bound_state
     = (Inl TypeError, with_error (PStr ''Not a valid datetime.'') bound_state)"
    unfolding DateTime_deserialize_def 1
    by (simp add: field_eval with_error_def)
  have 3: "DateTime_deserialize example_runtime (example_field DateTime ''when'')
       (PStr ''garbage'')
       (init_state\<lparr>errors := ErrDefaultDict, owner := Some example_owner,
                     original_value := PStr ''garbage''\<rparr>)
     = (Inl AttributeError,
        init_state\<lparr>errors := ErrDefaultDict, owner := Some example_owner,
                     original_value := PStr ''garbage''\<rparr>)"
    unfolding DateTime_deserialize_def 1
    by (simp add: field_eval)
  have 4: "Field_set example_runtime (example_field DateTime ''when'') example_owner
       (PStr ''garbage'') init_state
     = (Inl AttributeError,
        init_state\<lparr>errors := ErrDefaultDict, owner := Some example_owner,
                     original_value := PStr ''garbage''\<rparr>,
        example_owner)"
  proof (rule Field_set_deserialize_raises)
    show "preprocessors (example_field DateTime ''when'') = []"
      by (simp add: example_field_def)
    show "\<not> is_empty_value (PStr ''garbage'')"
      by (simp add: is_empty_value_def EMPTY_VALUES_def)
    have pp: "pre_process_value example_runtime (example_field DateTime ''when'')
        (PStr ''garbage'') = PStr ''garbage''"
      by (simp add: preprocess_eval example_field_def)
    have k: "kind (example_field DateTime ''when'') = DateTime"
      by (simp add: example_field_def)
    show "Field_deserialize example_runtime (example_field DateTime ''when'')
       (pre_process_value example_runtime (example_field DateTime ''when'') (PStr ''garbage''))
       (init_state\<lparr>errors := ErrDefaultDict, owner := Some example_owner,
                     original_value := PStr ''garbage''\<rparr>)
     = (Inl AttributeError,
        init_state\<lparr>errors := ErrDefaultDict, owner := Some example_owner,
                     original_value := PStr ''garbage''\<rparr>)"
      by (simp only: pp Field_deserialize_def k kind.case 3)
  qed
  show ?thesis
    by (rule conjI[OF 1 conjI[OF 4 2]])
qed

section \<open>What an assignment resets\<close>

text \<open>
  Claim C1. After any assignment, whether it returned or raised, the declaration holds the
  empty \<open>defaultdict\<close> and the value just assigned as original value, but its error flag is
  the flag it had before: \<open>__set__\<close> does not clear it, and nothing can be recorded in the
  \<open>defaultdict\<close>. So after assigning \<open>"5"\<close> and then \<open>"abc"\<close> to an integer field, the second
  assignment has raised \<open>AttributeError\<close> and left no error and no flag for \<open>"abc"\<close>; and a
  flag that a direct call of \<open>deserialize\<close> has set is still set after \<open>"5"\<close> is assigned.
\<close>

theorem assignment_resets_list_not_flag:
  "errors (fst (snd (Field_set rt f ow v st))) = ErrDefaultDict
   \<and> is_error (fst (snd (Field_set rt f ow v st))) = is_error st
   \<and> original_value (fst (snd (Field_set rt f ow v st))) = v
   \<and> Field_set example_runtime (example_field IntField ''age'') example_owner (PStr ''5'')
        init_state
      = (Inr (),
         \<lparr>owner = Some \<lparr>row_number = Some (PInt 3),
             fields_attr = Some (Some [(''age'', example_field IntField ''age'')]),
             attrs = [(''_age'', PInt 5)]\<rparr>,
          original_value = PStr ''5'', is_error = False, errors = ErrDefaultDict\<rparr>,
         \<lparr>row_number = Some (PInt 3),
             fields_attr = Some (Some [(''age'', example_field IntField ''age'')]),
             attrs = [(''_age'', PInt 5)]\<rparr>)
   \<and> Field_set example_runtime (example_field IntField ''age'')
        \<lparr>row_number = Some (PInt 3),
           fields_attr = Some (Some [(''age'', example_field IntField ''age'')]),
           attrs = [(''_age'', PInt 5)]\<rparr>
        (PStr ''abc'')
        \<lparr>owner = Some \<lparr>row_number = Some (PInt 3),
            fields_attr = Some (Some [(''age'', example_field IntField ''age'')]),
            attrs = [(''_age'', PInt 5)]\<rparr>,
         original_value = PStr ''5'', is_error = False, errors = ErrDefaultDict\<rparr>
      = (Inl AttributeError,
         \<lparr>owner = Some \<lparr>row_number = Some (PInt 3),
             fields_attr = Some (Some [(''age'', example_field IntField ''age'')]),
             attrs = [(''_age'', PInt 5)]\<rparr>,
          original_value = PStr ''abc'', is_error = False, errors = ErrDefaultDict\<rparr>,
         \<lparr>row_number = Some (PInt 3),
             fields_attr = Some (Some [(''age'', example_field IntField ''age'')]),
             attrs = [(''_age'', PInt 5)]\<rparr>)
   \<and> IntField_deserialize example_runtime (example_field IntField ''age'') (PStr ''abc'')
        bound_state
      = (Inr PNone, with_error (PStr (missing_message IntField ''incorrect_format'')) bound_state)
   \<and> fst (Field_set example_runtime (example_field IntField ''age'') example_owner (PStr ''5'')
        (with_error (PStr (missing_message IntField ''incorrect_format'')) bound_state))
      = Inr ()
   \<and> is_error (fst (snd
        (Field_set example_runtime (example_field IntField ''age'') example_owner (PStr ''5'')
           (with_error (PStr (missing_message IntField ''incorrect_format'')) bound_state))))"
proof -
  note g = Field_set_state[of rt f ow v st]
  have 1: "Field_set example_runtime (example_field IntField ''age'') example_owner (PStr ''5'')
        init_state
      = (Inr (),
         \<lparr>owner = Some \<lparr>row_number = Some (PInt 3),
             fields_attr = Some (Some [(''age'', example_field IntField ''age'')]),
             attrs = [(''_age'', PInt 5)]\<rparr>,
          original_value = PStr ''5'', is_error = False, errors = ErrDefaultDict\<rparr>,
         \<lparr>row_number = Some (PInt 3),
             fields_attr = Some (Some [(''age'', example_field IntField ''age'')]),
             attrs = [(''_age'', PInt 5)]\<rparr>)"
    by (simp add: field_eval)
  have 2: "Field_set example_runtime (example_field IntField ''age'')
        \<lparr>row_number = Some (PInt 3),
           fields_attr = Some (Some [(''age'', example_field IntField ''age'')]),
           attrs = [(''_age'', PInt 5)]\<rparr>
        (PStr ''abc'')
        \<lparr>owner = Some \<lparr>row_number = Some (PInt 3),
            fields_attr = Some (Some [(''age'', example_field IntField ''age'')]),
            attrs = [(''_age'', PInt 5)]\<rparr>,
         original_value = PStr ''5'', is_error = False, errors = ErrDefaultDict\<rparr>
      = (Inl AttributeError,
         \<lparr>owner = Some \<lparr>row_number = Some (PInt 3),
             fields_attr = Some (Some [(''age'', example_field IntField ''age'')]),
             attrs = [(''_age'', PInt 5)]\<rparr>,
          original_value = PStr ''abc'', is_error = False, errors = ErrDefaultDict\<rparr>,
         \<lparr>row_number = Some (PInt 3),
             fields_attr = Some (Some [(''age'', example_field IntField ''age'')]),
             attrs = [(''_age'', PInt 5)]\<rparr>)"
    by (simp add: field_eval)
  have 3: "IntField_deserialize example_runtime (example_field IntField ''age'') (PStr ''abc'')
        bound_state
      = (Inr PNone, with_error (PStr (missing_message IntField ''incorrect_format'')) bound_state)"
    by (simp add: field_eval with_error_def missing_message_def)
  have 4: "fst (Field_set example_runtime (example_field IntField ''age'') example_owner
        (PStr ''5'')
        (with_error (PStr (missing_message IntField ''incorrect_format'')) bound_state))
      = Inr ()"
    by (simp add: field_eval with_error_def)
  have 5: "is_error (fst (snd
        (Field_set example_runtime (example_field IntField ''age'') example_owner (PStr ''5'')
           (with_error (PStr (missing_message IntField ''incorrect_format'')) bound_state))))"
    by (simp add: Field_set_state with_error_def)
  show ?thesis
    by (rule conjI[OF g[THEN conjunct1] conjI[OF g[THEN conjunct2, THEN conjunct1]
          conjI[OF g[THEN conjunct2, THEN conjunct2]
            conjI[OF 1 conjI[OF 2 conjI[OF 3 conjI[OF 4 5]]]]]]])
qed

section \<open>Empty values and the required check\<close>

text \<open>
  Claim C2. The empty string given to a required integer field is \<open>None\<close> after
  pre-processing, but the assignment returns with nothing recorded and \<open>None\<close> stored: the
  required check is given the raw value, which is not \<open>None\<close>. The same holds in a state
  that can record. \<open>None\<close> itself makes a field that can record hold exactly the one
  message for \<open>required\<close>, but makes an assignment raise \<open>AttributeError\<close>. An empty list
  assigned to a field that is not required is stored and read back as the empty list.
\<close>

theorem required_check_tests_raw_value:
  "pre_process_value example_runtime (example_field IntField ''age'') (PStr '''') = PNone
   \<and> required (example_field IntField ''age'')
   \<and> Field_set example_runtime (example_field IntField ''age'') example_owner (PStr '''')
        init_state
      = (Inr (),
         \<lparr>owner = Some \<lparr>row_number = Some (PInt 3),
             fields_attr = Some (Some [(''age'', example_field IntField ''age'')]),
             attrs = [(''_age'', PNone)]\<rparr>,
          original_value = PStr '''', is_error = False, errors = ErrDefaultDict\<rparr>,
         \<lparr>row_number = Some (PInt 3),
             fields_attr = Some (Some [(''age'', example_field IntField ''age'')]),
             attrs = [(''_age'', PNone)]\<rparr>)
   \<and> Field__deserialize example_runtime (example_field IntField ''age'') (PStr '''')
        bound_state = (Inr PNone, bound_state)
   \<and> Field__deserialize example_runtime (example_field IntField ''age'') PNone bound_state
      = (Inr PNone, with_error (PStr ''Missing Value - age = : Row 3.'') bound_state)
   \<and> fst (Field_set example_runtime (example_field IntField ''age'') example_owner PNone
        init_state) = Inl AttributeError
   \<and> fst (Field_set example_runtime optional_int example_owner (PList []) init_state) = Inr ()
   \<and> Field_get optional_int
        (snd (snd (Field_set example_runtime optional_int example_owner (PList []) init_state)))
      = Inr (PList [])"
proof -
  have 1: "pre_process_value example_runtime (example_field IntField ''age'') (PStr '''')
      = PNone"
    by (simp add: preprocess_eval)
  have 2: "required (example_field IntField ''age'')"
    by (simp add: example_field_def)
  have 3: "Field_set example_runtime (example_field IntField ''age'') example_owner (PStr '''')
        init_state
      = (Inr (),
         \<lparr>owner = Some \<lparr>row_number = Some (PInt 3),
             fields_attr = Some (Some [(''age'', example_field IntField ''age'')]),
             attrs = [(''_age'', PNone)]\<rparr>,
          original_value = PStr '''', is_error = False, errors = ErrDefaultDict\<rparr>,
         \<lparr>row_number = Some (PInt 3),
             fields_attr = Some (Some [(''age'', example_field IntField ''age'')]),
             attrs = [(''_age'', PNone)]\<rparr>)"
    by (simp add: field_eval)
  have 4: "Field__deserialize example_runtime (example_field IntField ''age'') (PStr '''')
        bound_state = (Inr PNone, bound_state)"
    by (simp add: field_eval)
  have 5: "Field__deserialize example_runtime (example_field IntField ''age'') PNone bound_state
      = (Inr PNone, with_error (PStr ''Missing Value - age = : Row 3.'') bound_state)"
    by (simp add: field_eval with_error_def show_int_def show_nat.simps digit_char_def)
  have 6: "fst (Field_set example_runtime (example_field IntField ''age'') example_owner PNone
        init_state) = Inl AttributeError"
    by (simp add: field_eval show_int_def show_nat.simps digit_char_def)
  have s: "Field_set example_runtime optional_int example_owner (PList []) init_state
      = (Inr (),
         \<lparr>owner = Some \<lparr>row_number = Some (PInt 3),
             fields_attr = Some (Some [(''age'', optional_int)]),
             attrs = [(''_age'', PList [])]\<rparr>,
          original_value = PList [], is_error = False, errors = ErrDefaultDict\<rparr>,
         \<lparr>row_number = Some (PInt 3),
             fields_attr = Some (Some [(''age'', optional_int)]),
             attrs = [(''_age'', PList [])]\<rparr>)"
    by (simp add: field_eval optional_int_def)
  have 7: "fst (Field_set example_runtime optional_int example_owner (PList []) init_state)
      = Inr ()"
    by (simp add: s)
  have 8: "Field_get optional_int
        (snd (snd (Field_set example_runtime optional_int example_owner (PList []) init_state)))
      = Inr (PList [])"
  proof -
    have "attr_name optional_int = ''age''"
      by (simp add: optional_int_def example_field_def)
    then show ?thesis
      by (simp add: s Field_get_def private_name_def)
  qed
  show ?thesis
    by (rule conjI[OF 1 conjI[OF 2 conjI[OF 3 conjI[OF 4 conjI[OF 5 conjI[OF 6
          conjI[OF 7 8]]]]]]])
qed

section \<open>The strings that stand for \<open>None\<close>\<close>




end
